theory Spec2Isabelle
  imports Main "HOL-Library.Sublist" "HOL-Library.Word"
begin

unbundle bit_operations_syntax

section \<open>Strings as the Go code uses them\<close>

text \<open>
  A Go string is a sequence of bytes; it is modelled as \<open>string\<close>.
  \<open>strings.Contains s sub\<close> is \<open>sublist sub s\<close> and \<open>strings.HasPrefix s p\<close> is
  \<open>prefix p s\<close> (both from the library, both executable).
\<close>

definition Contains :: "string \<Rightarrow> string \<Rightarrow> bool" where
  "Contains s sub = sublist sub s"

definition HasPrefix :: "string \<Rightarrow> string \<Rightarrow> bool" where
  "HasPrefix s p = prefix p s"

text \<open>
  \<open>strings.Split s sep\<close> for a separator of one byte, which is what every call in the
  modelled files passes (\<open>":"\<close> and \<open>"/"\<close>). The result is never empty:
  \<open>Split "" ":"\<close> is the list holding one empty string.
\<close>

fun Split :: "string \<Rightarrow> char \<Rightarrow> string list" where
  "Split [] d = [[]]"
| "Split (c # cs) d =
     (if c = d then [] # Split cs d
      else (case Split cs d of
              [] \<Rightarrow> [[c]]
            | p # ps \<Rightarrow> (c # p) # ps))"

text \<open>
  Modelled from the spec: \<open>strutil.SafeSplit\<close> is called by the container code but is
  not among the source files. The spec describes its results as "the substring before the
  first path separator" (index 0) and "the first two colon-delimited segments" (indices 0
  and 1), and a volume string "fails to parse" when a part is empty: the segment at the
  index when there is one, the empty string otherwise.
\<close>

definition SafeSplit :: "string \<Rightarrow> char \<Rightarrow> nat \<Rightarrow> string" where
  "SafeSplit s d i = (let parts = Split s d in if i < length parts then parts ! i else [])"

text \<open>\<open>strings.Join\<close> with a one-byte separator.\<close>

fun Join :: "string list \<Rightarrow> string \<Rightarrow> string" where
  "Join [] sep = []"
| "Join [x] sep = x"
| "Join (x # y # ys) sep = x @ sep @ Join (y # ys) sep"

section \<open>The product table (package product)\<close>

definition ReleaseVersion :: string where
  "ReleaseVersion = ''2025.1''"

section \<open>Image policy (CheckImage)\<close>

definition officialImagePrefix :: string where
  "officialImagePrefix = ''jetbrains/qodana''"

definition isUnofficialLinter :: "string \<Rightarrow> bool" where
  "isUnofficialLinter linter = (\<not> HasPrefix linter officialImagePrefix)"

definition hasExactVersionTag :: "string \<Rightarrow> bool" where
  "hasExactVersionTag linter = (Contains linter '':'' \<and> \<not> Contains linter '':latest'')"

definition isCompatibleLinter :: "string \<Rightarrow> bool" where
  "isCompatibleLinter linter = Contains linter ReleaseVersion"

text \<open>
  The three calls of \<open>msg.WarningMessageCI\<close> in \<open>CheckImage\<close>, with the arguments the
  format string receives.
\<close>

datatype warning =
    Unofficial string
  | Unpinned string string
  | Incompatible string string string

text \<open>
  \<open>CheckImage\<close> prints and returns nothing; the model returns the warnings it prints, in
  order. \<open>version.Version\<close> is a variable of a package that is not among the source
  files, so it is the first argument.
\<close>

definition CheckImage :: "string \<Rightarrow> string \<Rightarrow> warning list" where
  "CheckImage version linter =
     (if Contains version ''nightly'' \<or> Contains version ''dev'' then []
      else
        (if isUnofficialLinter linter then [Unofficial linter] else []) @
        (if \<not> hasExactVersionTag linter then
           [Unpinned linter (Join [SafeSplit linter (CHR '':'') 0, ReleaseVersion] '':'')]
         else if \<not> isCompatibleLinter linter then
           [Incompatible linter version
              (Join [SafeSplit linter (CHR '':'') 0, ReleaseVersion] '':'')]
         else []))"

fun is_Unpinned :: "warning \<Rightarrow> bool" where
  "is_Unpinned (Unpinned _ _) = True"
| "is_Unpinned _ = False"

fun is_Incompatible :: "warning \<Rightarrow> bool" where
  "is_Incompatible (Incompatible _ _ _) = True"
| "is_Incompatible _ = False"

section \<open>Errors and process termination\<close>

text \<open>
  A Go \<open>error\<close> is represented by its text (\<open>err.Error()\<close>). \<open>log.Fatal\<close> prints
  its arguments and terminates the process, so a function that calls it does not return:
  the model returns \<open>Inl (Fatal message)\<close> instead. A run-time panic (an index out of
  range) is \<open>Inl (Panic message)\<close>.
\<close>

type_synonym err = string

datatype failure = Fatal string | Panic string

section \<open>SHA-256 (package crypto/sha256 of the Go library)\<close>

text \<open>
  \<open>getHash\<close> calls \<open>sha256.Sum256\<close>. The function is modelled as FIPS 180-4 defines
  it, on 32-bit words: the round constants and the initial hash value (written in
  decimal), the six logical functions, the padding, the message schedule and the
  compression of each block of 64 bytes.
\<close>

definition K256 :: "32 word list" where
  "K256 =
   [1116352408, 1899447441, 3049323471, 3921009573, 961987163, 1508970993,
    2453635748, 2870763221, 3624381080, 310598401, 607225278, 1426881987,
    1925078388, 2162078206, 2614888103, 3248222580, 3835390401, 4022224774,
    264347078, 604807628, 770255983, 1249150122, 1555081692, 1996064986,
    2554220882, 2821834349, 2952996808, 3210313671, 3336571891, 3584528711,
    113926993, 338241895, 666307205, 773529912, 1294757372, 1396182291,
    1695183700, 1986661051, 2177026350, 2456956037, 2730485921, 2820302411,
    3259730800, 3345764771, 3516065817, 3600352804, 4094571909, 275423344,
    430227734, 506948616, 659060556, 883997877, 958139571, 1322822218,
    1537002063, 1747873779, 1955562222, 2024104815, 2227730452, 2361852424,
    2428436474, 2756734187, 3204031479, 3329325298]"

definition init256 :: "32 word list" where
  "init256 = [1779033703, 3144134277, 1013904242, 2773480762,
     1359893119, 2600822924, 528734635, 1541459225]"

definition rotr :: "nat \<Rightarrow> 32 word \<Rightarrow> 32 word" where
  "rotr n x = drop_bit n x OR push_bit (32 - n) x"

definition bsig0 :: "32 word \<Rightarrow> 32 word" where
  "bsig0 x = rotr 2 x XOR rotr 13 x XOR rotr 22 x"

definition bsig1 :: "32 word \<Rightarrow> 32 word" where
  "bsig1 x = rotr 6 x XOR rotr 11 x XOR rotr 25 x"

definition ssig0 :: "32 word \<Rightarrow> 32 word" where
  "ssig0 x = rotr 7 x XOR rotr 18 x XOR drop_bit 3 x"

definition ssig1 :: "32 word \<Rightarrow> 32 word" where
  "ssig1 x = rotr 17 x XOR rotr 19 x XOR drop_bit 10 x"

definition ch :: "32 word \<Rightarrow> 32 word \<Rightarrow> 32 word \<Rightarrow> 32 word" where
  "ch x y z = (x AND y) XOR (NOT x AND z)"

definition maj :: "32 word \<Rightarrow> 32 word \<Rightarrow> 32 word \<Rightarrow> 32 word" where
  "maj x y z = (x AND y) XOR (x AND z) XOR (y AND z)"

text \<open>
  The message is followed by the byte \<open>0x80\<close>, by zero bytes up to a length of 56
  modulo 64, and by its length in bits as 8 bytes, most significant first.
\<close>

definition be64 :: "nat \<Rightarrow> 8 word list" where
  "be64 n = map (\<lambda>i. ucast (drop_bit (8 * (7 - i)) (of_nat n :: 64 word))) [0..<8]"

definition pad :: "8 word list \<Rightarrow> 8 word list" where
  "pad m = m @ [0x80] @ replicate ((119 - length m mod 64) mod 64) 0 @ be64 (8 * length m)"

text \<open>The padded message as 32-bit words, most significant byte first.\<close>

fun be32s :: "8 word list \<Rightarrow> 32 word list" where
  "be32s (a # b # c # d # rest) =
     (push_bit 24 (ucast a) OR push_bit 16 (ucast b) OR push_bit 8 (ucast c) OR ucast d) # be32s rest"
| "be32s _ = []"

text \<open>The message schedule: 48 more words after the 16 of the block.\<close>

fun schedule :: "nat \<Rightarrow> 32 word list \<Rightarrow> 32 word list" where
  "schedule 0 w = w"
| "schedule (Suc n) w =
     schedule n (w @ [ssig1 (w ! (length w - 2)) + w ! (length w - 7) +
                      ssig0 (w ! (length w - 15)) + w ! (length w - 16)])"

text \<open>One round on the eight working variables, and the 64 rounds of a block.\<close>

fun round256 :: "32 word list \<Rightarrow> 32 word \<times> 32 word \<Rightarrow> 32 word list" where
  "round256 [a, b, c, d, e, f, g, h] (k, w) =
     (let t1 = h + bsig1 e + ch e f g + k + w;
          t2 = bsig0 a + maj a b c
      in [t1 + t2, a, b, c, d + t1, e, f, g])"
| "round256 s _ = s"

definition block256 :: "32 word list \<Rightarrow> 32 word list \<Rightarrow> 32 word list" where
  "block256 hs ws = map2 (+) hs (foldl round256 hs (zip K256 (schedule 48 ws)))"

fun blocks256 :: "nat \<Rightarrow> 32 word list \<Rightarrow> 32 word list \<Rightarrow> 32 word list" where
  "blocks256 0 hs ws = hs"
| "blocks256 (Suc n) hs ws = blocks256 n (block256 hs (take 16 ws)) (drop 16 ws)"

definition be32bytes :: "32 word \<Rightarrow> 8 word list" where
  "be32bytes x = [ucast (drop_bit 24 x), ucast (drop_bit 16 x), ucast (drop_bit 8 x), ucast x]"

text \<open>\<open>sha256.Sum256\<close>: the 32 bytes of the digest of the bytes of the string.\<close>

definition Sum256 :: "string \<Rightarrow> 8 word list" where
  "Sum256 s =
     (let m = pad (map of_char s)
      in concat (map be32bytes (blocks256 (length m div 64) init256 (be32s m))))"


section \<open>Run identifier (package commoncontext)\<close>

text \<open>\<open>hex.EncodeToString\<close> writes two lower-case digits for each byte.\<close>

definition hextable :: string where
  "hextable = ''0123456789abcdef''"

definition EncodeToString :: "8 word list \<Rightarrow> string" where
  "EncodeToString bs =
     concat (map (\<lambda>b. [hextable ! unat (drop_bit 4 b), hextable ! unat (take_bit 4 b)]) bs)"

text \<open>\<open>getHash\<close> returns a SHA256 hash of a given string.\<close>

definition getHash :: "string \<Rightarrow> string" where
  "getHash s = EncodeToString (Sum256 s)"

text \<open>The slice expression \<open>s[0:n]\<close>, which panics when \<open>n\<close> exceeds the length.\<close>

definition sliceTo :: "string \<Rightarrow> nat \<Rightarrow> failure + string" where
  "sliceTo s n =
     (if n \<le> length s then Inr (take n s) else Inl (Panic ''slice bounds out of range''))"

text \<open>
  \<open>computeId\<close>. \<open>filepath.Abs\<close> depends on the working directory of the process and
  can fail, so it is the first argument; \<open>computeId\<close> drops its error and keeps the
  returned string, which is empty when \<open>Abs\<close> fails.
\<close>

definition computeId ::
  "(string \<Rightarrow> err + string) \<Rightarrow> string \<Rightarrow> string \<Rightarrow> string \<Rightarrow> failure + string"
where
  "computeId absf linter ide projectDir =
     (let analyzer = (if linter \<noteq> [] then linter else if ide \<noteq> [] then ide else []);
          len = 7;
          projectAbs = (case absf projectDir of Inl e \<Rightarrow> [] | Inr p \<Rightarrow> p)
      in case sliceTo (getHash analyzer) (len + 1) of
           Inl f \<Rightarrow> Inl f
         | Inr a \<Rightarrow>
             (case sliceTo (getHash projectAbs) (len + 1) of
                Inl f \<Rightarrow> Inl f
              | Inr b \<Rightarrow> Inr (a @ ''-'' @ b)))"

section \<open>The spec's reading of the run identifier\<close>

text \<open>
  The spec derives the identifier from "hashing the analyzer identity and absolute
  project path", with a "hex prefix of SHA-256 for each component". The hexadecimal
  SHA-256 of a string, in those words: each byte of the digest as the two digits of its
  value in base 16, the digits \<open>0\<close> to \<open>9\<close> and \<open>a\<close> to \<open>f\<close> by their character
  codes.
\<close>

definition spec_hexDigit :: "nat \<Rightarrow> char" where
  "spec_hexDigit n = (if n < 10 then char_of (48 + n) else char_of (87 + n))"

definition spec_sha256_hex :: "string \<Rightarrow> string" where
  "spec_sha256_hex s =
     concat (map (\<lambda>b. [spec_hexDigit (unat b div 16), spec_hexDigit (unat b mod 16)]) (Sum256 s))"

section \<open>The scan context and what the container code takes from other packages\<close>

text \<open>
  \<open>c.Analyser()\<close> is an interface value; \<open>runQodanaContainer\<close> tests whether it is a
  \<open>*product.DockerAnalyzer\<close> and reads its \<open>Image\<close>.
\<close>

datatype analyzer = DockerAnalyzer string | NativeAnalyzer string

text \<open>The accessors of \<open>corescan.Context\<close> that the container code calls.\<close>

record scan_context =
  Analyser :: analyzer
  CacheDir :: string
  ProjectDir :: string
  ResultsDir :: string
  ReportDir :: string
  SkipPull :: bool
  Env :: "string list"
  QodanaUploadToken :: string
  ContextId :: string
  GlobalConfigurationsDir :: string
  Volumes :: "string list"
  User :: string
  JvmDebugPort :: int

text \<open>\<open>registry.AuthConfig\<close>, the stored credentials of one registry.\<close>

record auth_config =
  Username :: string
  Password :: string
  Auth :: string
  ServerAddress :: string
  IdentityToken :: string
  RegistryToken :: string

text \<open>
  Everything the container code reads from the process environment, from the Go library
  and from packages that are not among the source files is a field of \<open>platform\<close>:
  \<^item> \<open>GOOS\<close> is \<open>runtime.GOOS\<close>, \<open>Version\<close> is \<open>version.Version\<close>, \<open>Getenv\<close> is
    \<open>os.Getenv\<close>, \<open>Abs\<close> is \<open>filepath.Abs\<close>, \<open>IsInteractive\<close> is \<open>msg.IsInteractive()\<close>;
  \<^item> \<open>CloudRootEndpointUrl\<close> is \<open>cloud.GetCloudRootEndpoint().Url\<close>;
  \<^item> \<open>Lower\<close> is \<open>strutil.Lower\<close>;
  \<^item> \<open>cliconfig_Load\<close> is \<open>cliconfig.Load("")\<close>: an error, or the configuration file,
    represented by its method \<open>GetAuthConfig\<close>;
  \<^item> \<open>json_Marshal\<close> and \<open>base64_URLEncoding\<close> are \<open>json.Marshal\<close> and
    \<open>base64.URLEncoding.EncodeToString\<close>;
  \<^item> \<open>QodanaToken\<close>, \<open>QodanaLicenseOnlyToken\<close>, \<open>QodanaCliContainerName\<close> and
    \<open>QodanaCliContainerKeep\<close> are the names of environment variables, constants of
    package \<open>qdenv\<close>; the \<open>Data...Dir\<close> fields are the constants of package
    \<open>qdcontainer\<close>;
  \<^item> \<open>GetIdeArgs\<close> is the translator from a context to the command line;
  \<^item> \<open>QodanaEnvironment\<close> lists the key and value of each call that
    \<open>qdenv.ExtractQodanaEnvironment\<close> makes to its callback, and \<open>EnvExtractedFromOsEnv\<close>
    is what one such call does to the environment list of the context.
\<close>

record platform =
  GOOS :: string
  Version :: string
  Getenv :: "string \<Rightarrow> string"
  Abs :: "string \<Rightarrow> err + string"
  IsInteractive :: bool
  CloudRootEndpointUrl :: string
  Lower :: "string \<Rightarrow> string"
  cliconfig_Load :: "err + (string \<Rightarrow> err + auth_config)"
  json_Marshal :: "auth_config \<Rightarrow> err + string"
  base64_URLEncoding :: "string \<Rightarrow> string"
  QodanaToken :: string
  QodanaLicenseOnlyToken :: string
  QodanaCliContainerName :: string
  QodanaCliContainerKeep :: string
  DataCacheDir :: string
  DataProjectDir :: string
  DataResultsDir :: string
  DataResultsReportDir :: string
  DataGlobalConfigDir :: string
  GetIdeArgs :: "scan_context \<Rightarrow> string list"
  QodanaEnvironment :: "(string \<times> string) list"
  EnvExtractedFromOsEnv :: "string list \<Rightarrow> string \<Rightarrow> string \<Rightarrow> string list"

text \<open>
  Modelled from the spec: \<open>Context.WithEnvExtractedFromOsEnv\<close> is a method of
  \<open>corescan.Context\<close>, which is not among the source files. The spec calls it a scoped
  "with extra environment variable" constructor, "a copy-on-write style update that
  returns a new context value rather than mutating the original": the result is the
  context with a new environment list and every other attribute as before.
\<close>

definition WithEnvExtractedFromOsEnv ::
  "platform \<Rightarrow> scan_context \<Rightarrow> string \<Rightarrow> string \<Rightarrow> scan_context" where
  "WithEnvExtractedFromOsEnv P c key val = c\<lparr>Env := EnvExtractedFromOsEnv P (Env c) key val\<rparr>"

text \<open>
  \<open>qdenv.ExtractQodanaEnvironment(updateScanContextEnv)\<close>, where the callback replaces
  \<open>c\<close> by \<open>c.WithEnvExtractedFromOsEnv(key, value)\<close> at each call.
\<close>

definition ExtractQodanaEnvironment :: "platform \<Rightarrow> scan_context \<Rightarrow> scan_context" where
  "ExtractQodanaEnvironment P c =
     fold (\<lambda>kv c'. WithEnvExtractedFromOsEnv P c' (fst kv) (snd kv)) (QodanaEnvironment P) c"

section \<open>The container specification\<close>

datatype mount_type = TypeBind

record mount =
  Type :: mount_type
  Source :: string
  Target :: string

record port_binding =
  HostIP :: string
  HostPort :: string

text \<open>
  \<open>nat.PortMap\<close> is a Go map from port to bindings and \<open>nat.PortSet\<close> a map from port
  to the empty struct, that is a set of ports. \<open>container.NetworkMode\<close> is a string
  type whose zero value is the empty string; \<open>network.NetworkHost\<close> is \<open>"host"\<close>.
\<close>

record host_config =
  AutoRemove :: bool
  Mounts :: "mount list"
  CapAdd :: "string list"
  SecurityOpt :: "string list"
  PortBindings :: "string \<rightharpoonup> port_binding list"
  NetworkMode :: string

record container_config =
  ConfigImage :: string
  Cmd :: "string list"
  Tty :: bool
  AttachStdout :: bool
  AttachStderr :: bool
  ContainerEnv :: "string list"
  ContainerUser :: string
  ExposedPorts :: "string set"

record container_create_config =
  Name :: string
  Config :: container_config
  HostConfig :: host_config

definition containerJvmDebugPort :: string where
  "containerJvmDebugPort = ''5005''"

definition NetworkHost :: string where
  "NetworkHost = ''host''"

section \<open>The container engine\<close>

record daemon_info =
  OSType :: string

text \<open>
  The \<open>io.ReadCloser\<close> of an image pull, as far as \<open>pullImage\<close> uses it: the error of
  copying it to \<open>io.Discard\<close> and the error of closing it.
\<close>

record pull_stream =
  CopyErr :: "err option"
  CloseErr :: "err option"

text \<open>
  \<open>ContainerWait\<close> returns two channels and \<open>getContainerExitCode\<close> selects on them:
  the reply is the value the \<open>select\<close> receives, an error (possibly \<open>nil\<close>) or a status.
\<close>

datatype wait_reply = ErrCh "err option" | StatusCh int

record container_summary =
  Names :: "string list"

text \<open>The methods of the Docker client that the code calls, as functions of their arguments.\<close>

record engine =
  Info :: "err + daemon_info"
  ImagePull :: "string \<Rightarrow> string \<Rightarrow> err + pull_stream"
  ContainerCreate :: "container_create_config \<Rightarrow> err + string"
  ContainerStart :: "string \<Rightarrow> err option"
  ContainerWait :: "string \<Rightarrow> wait_reply"
  ContainerList :: "err + container_summary list"
  ContainerStop :: "string \<Rightarrow> err option"

text \<open>
  A run is observed through the engine calls it makes, in order, each with its arguments
  and its reply. The second argument of \<open>ImagePullEv\<close> is the \<open>RegistryAuth\<close> option,
  empty for an anonymous pull.
\<close>

datatype engine_event =
    InfoEv "err + daemon_info"
  | ImagePullEv string string "err + pull_stream"
  | ContainerCreateEv container_create_config "err + string"
  | ContainerStartEv string "err option"
  | ContainerWaitEv string wait_reply
  | ContainerListEv "err + container_summary list"
  | ContainerStopEv string "err option"

fun is_ImagePullEv :: "engine_event \<Rightarrow> bool" where
  "is_ImagePullEv (ImagePullEv _ _ _) = True"
| "is_ImagePullEv _ = False"

fun is_ContainerCreateEv :: "engine_event \<Rightarrow> bool" where
  "is_ContainerCreateEv (ContainerCreateEv _ _) = True"
| "is_ContainerCreateEv _ = False"

fun is_ContainerStartEv :: "engine_event \<Rightarrow> bool" where
  "is_ContainerStartEv (ContainerStartEv _ _) = True"
| "is_ContainerStartEv _ = False"

section \<open>Registry puller (pullImage)\<close>

definition encodeAuthToBase64 :: "platform \<Rightarrow> auth_config \<Rightarrow> err + string" where
  "encodeAuthToBase64 P authConfig =
     (case json_Marshal P authConfig of
        Inl e \<Rightarrow> Inl e
      | Inr buf \<Rightarrow> Inr (base64_URLEncoding P buf))"

definition isDockerUnauthorizedError :: "platform \<Rightarrow> string \<Rightarrow> bool" where
  "isDockerUnauthorizedError P errMsg =
     (let errMsg' = Lower P errMsg
      in Contains errMsg' ''unauthorized'' \<or> Contains errMsg' ''denied'' \<or>
         Contains errMsg' ''forbidden'')"

text \<open>
  The end of \<open>pullImage\<close>, once a pull has returned a reader: the copy to \<open>io.Discard\<close>,
  fatal on error (\<open>log.Fatal\<close> exits without running the deferred close), then the
  deferred close, fatal on error.
\<close>

definition drainPull :: "pull_stream \<Rightarrow> failure + unit" where
  "drainPull reader =
     (case CopyErr reader of
        Some e \<Rightarrow> Inl (Fatal (''couldn't read the image pull logs '' @ e))
      | None \<Rightarrow>
          (case CloseErr reader of
             Some e \<Rightarrow> Inl (Fatal (''can't pull image '' @ e))
           | None \<Rightarrow> Inr ()))"

text \<open>
  Lines 219 to 233 of \<open>pullImage\<close>: the stored credentials of the registry host of the
  image, encoded for the \<open>RegistryAuth\<close> option. Each of the three steps stops the process
  when it fails.
\<close>

definition registryAuth :: "platform \<Rightarrow> string \<Rightarrow> failure + string" where
  "registryAuth P img =
     (case cliconfig_Load P of
        Inl e \<Rightarrow> Inl (Fatal e)
      | Inr GetAuthConfig \<Rightarrow>
          (let registryHostname = SafeSplit img (CHR ''/'') 0
           in case GetAuthConfig registryHostname of
                Inl e \<Rightarrow> Inl (Fatal (''can't load the auth config'' @ e))
              | Inr a \<Rightarrow>
                  (case encodeAuthToBase64 P a of
                     Inl e \<Rightarrow> Inl (Fatal (''can't encode auth to base64'' @ e))
                   | Inr encodedAuth \<Rightarrow> Inr encodedAuth)))"

definition pullImage :: "platform \<Rightarrow> engine \<Rightarrow> string \<Rightarrow> (failure + unit) \<times> engine_event list" where
  "pullImage P client img =
     (let first = ImagePull client img []
      in case first of
           Inr reader \<Rightarrow> (drainPull reader, [ImagePullEv img [] first])
         | Inl e \<Rightarrow>
             if isDockerUnauthorizedError P e then
               (case registryAuth P img of
                  Inl f \<Rightarrow> (Inl f, [ImagePullEv img [] first])
                | Inr encodedAuth \<Rightarrow>
                    (let second = ImagePull client img encodedAuth
                     in case second of
                          Inl e' \<Rightarrow>
                            (Inl (Fatal (''can't pull image from the private registry'' @ e')),
                             [ImagePullEv img [] first, ImagePullEv img encodedAuth second])
                        | Inr reader \<Rightarrow>
                            (drainPull reader,
                             [ImagePullEv img [] first, ImagePullEv img encodedAuth second])))
             else (Inl (Fatal (''can't pull image '' @ e)), [ImagePullEv img [] first]))"

text \<open>
  \<open>PullImage\<close> runs \<open>pullImage\<close> inside \<open>msg.PrintProcess\<close>, which only prints around
  the call.
\<close>

definition PullImage :: "platform \<Rightarrow> engine \<Rightarrow> string \<Rightarrow> (failure + unit) \<times> engine_event list" where
  "PullImage P client img = pullImage P client img"

section \<open>Container cleanup\<close>

text \<open>
  The package variable \<open>containerName\<close> starts as \<open>"qodana-cli"\<close> and is assigned by
  \<open>getDockerOptions\<close>. The functions that read or write it take and return it.
\<close>

definition initialContainerName :: string where
  "initialContainerName = ''qodana-cli''"



section \<open>Container configuration builder (getDockerOptions)\<close>

text \<open>
  \<open>extractDockerVolumes\<close>: on Windows the first two of at least three colon-separated
  parts are rejoined as the source and the third is the target; elsewhere the source and
  the target are the first two parts, when both are non-empty. Every other case returns
  two empty strings.
\<close>

definition extractDockerVolumes :: "platform \<Rightarrow> string \<Rightarrow> string \<times> string" where
  "extractDockerVolumes P volume =
     (if GOOS P = ''windows'' then
        (let parts = Split volume (CHR '':'')
         in if length parts \<ge> 3 then (parts ! 0 @ '':'' @ parts ! 1, parts ! 2) else ([], []))
      else
        (let source = SafeSplit volume (CHR '':'') 0;
             target = SafeSplit volume (CHR '':'') 1
         in if source \<noteq> [] \<and> target \<noteq> [] then (source, target) else ([], [])))"

text \<open>\<open>strconv.Itoa\<close>: the decimal digits, after a minus sign for a negative number.\<close>

fun natDigits :: "nat \<Rightarrow> string" where
  "natDigits n =
     (if n < 10 then [''0123456789'' ! n]
      else natDigits (n div 10) @ [''0123456789'' ! (n mod 10)])"

declare natDigits.simps [simp del]

definition Itoa :: "int \<Rightarrow> string" where
  "Itoa i = (if i < 0 then ''-'' @ natDigits (nat (- i)) else natDigits (nat i))"

text \<open>Lines 285 to 293: the environment list of the container.\<close>

definition dockerEnv :: "platform \<Rightarrow> scan_context \<Rightarrow> string list" where
  "dockerEnv P c =
     (let env0 = Env c;
          qodanaCloudUploadToken = QodanaUploadToken c;
          env1 = (if qodanaCloudUploadToken \<noteq> []
                  then env0 @ [QodanaToken P @ ''='' @ qodanaCloudUploadToken]
                  else env0);
          qodanaLicenseOnlyToken = Getenv P (QodanaLicenseOnlyToken P)
      in if qodanaLicenseOnlyToken \<noteq> [] \<and> qodanaCloudUploadToken = []
         then env1 @ [QodanaLicenseOnlyToken P @ ''='' @ qodanaLicenseOnlyToken]
         else env1)"

text \<open>\<open>filepath.Abs\<close> followed by \<open>log.Fatal\<close> with the given message on error.\<close>

definition absOrFatal :: "platform \<Rightarrow> string \<Rightarrow> string \<Rightarrow> failure + string" where
  "absOrFatal P message dir =
     (case Abs P dir of Inl e \<Rightarrow> Inl (Fatal (message @ e)) | Inr p \<Rightarrow> Inr p)"

text \<open>Lines 295 to 310: the four directories, in the order cache, project, results, report.\<close>

definition absPaths :: "platform \<Rightarrow> scan_context \<Rightarrow> failure + (string \<times> string \<times> string \<times> string)" where
  "absPaths P c =
     (case absOrFatal P ''couldn't get abs path for cache'' (CacheDir c) of
        Inl f \<Rightarrow> Inl f
      | Inr cachePath \<Rightarrow>
     (case absOrFatal P ''couldn't get abs path for project'' (ProjectDir c) of
        Inl f \<Rightarrow> Inl f
      | Inr projectPath \<Rightarrow>
     (case absOrFatal P ''couldn't get abs path for results'' (ResultsDir c) of
        Inl f \<Rightarrow> Inl f
      | Inr resultsPath \<Rightarrow>
     (case absOrFatal P ''couldn't get abs path for report'' (ReportDir c) of
        Inl f \<Rightarrow> Inl f
      | Inr reportPath \<Rightarrow> Inr (cachePath, projectPath, resultsPath, reportPath)))))"

text \<open>Lines 311 to 314: the new value of the package variable \<open>containerName\<close>.\<close>

definition newContainerName :: "platform \<Rightarrow> scan_context \<Rightarrow> string" where
  "newContainerName P c =
     (let n = Getenv P (QodanaCliContainerName P)
      in if n = [] then ''qodana-cli-'' @ ContextId c else n)"

definition bindMount :: "string \<Rightarrow> string \<Rightarrow> mount" where
  "bindMount source target = \<lparr>Type = TypeBind, Source = source, Target = target\<rparr>"

text \<open>Lines 315 to 336: the four mounts that are always there.\<close>

definition fixedVolumes :: "platform \<Rightarrow> string \<times> string \<times> string \<times> string \<Rightarrow> mount list" where
  "fixedVolumes P paths =
     (case paths of (cachePath, projectPath, resultsPath, reportPath) \<Rightarrow>
        [bindMount cachePath (DataCacheDir P),
         bindMount projectPath (DataProjectDir P),
         bindMount resultsPath (DataResultsDir P),
         bindMount reportPath (DataResultsReportDir P)])"

text \<open>Lines 337 to 353: the mount of the global configuration directory, when one is set.\<close>

definition globalConfigVolume :: "platform \<Rightarrow> scan_context \<Rightarrow> failure + mount list" where
  "globalConfigVolume P c =
     (if GlobalConfigurationsDir c \<noteq> [] then
        (case Abs P (GlobalConfigurationsDir c) of
           Inl e \<Rightarrow>
             Inl (Fatal (''Failed to get absolute path for global configurations file '' @
                         GlobalConfigurationsDir c @ '': '' @ e))
         | Inr globalConfigDirAbsPath \<Rightarrow>
             Inr [bindMount globalConfigDirAbsPath (DataGlobalConfigDir P)])
      else Inr [])"

text \<open>
  Lines 354 to 367: the loop over the volumes of the user, which appends one mount for
  each and stops the process at the first one that does not parse.
\<close>

fun userVolumes :: "platform \<Rightarrow> string list \<Rightarrow> mount list \<Rightarrow> failure + mount list" where
  "userVolumes P [] volumes = Inr volumes"
| "userVolumes P (volume # rest) volumes =
     (case extractDockerVolumes P volume of
        (source, target) \<Rightarrow>
          if source \<noteq> [] \<and> target \<noteq> [] then
            userVolumes P rest (volumes @ [bindMount source target])
          else Inl (Fatal (''couldn't parse volume '' @ volume)))"

text \<open>Lines 374 to 390: the published and the exposed ports.\<close>

definition portBindings :: "scan_context \<Rightarrow> string \<rightharpoonup> port_binding list" where
  "portBindings c =
     (if JvmDebugPort c > 0 then
        [containerJvmDebugPort \<mapsto>
           [\<lparr>HostIP = ''0.0.0.0'', HostPort = Itoa (JvmDebugPort c)\<rparr>]]
      else Map.empty)"

definition exposedPorts :: "scan_context \<Rightarrow> string set" where
  "exposedPorts c = (if JvmDebugPort c > 0 then {containerJvmDebugPort} else {})"

text \<open>Lines 392 to 399: capabilities and security options of the dotnet images.\<close>

definition capAdd :: "string \<Rightarrow> string list" where
  "capAdd img = (if Contains img ''dotnet'' then [''SYS_PTRACE''] else [])"

definition securityOpt :: "string \<Rightarrow> string list" where
  "securityOpt img = (if Contains img ''dotnet'' then [''seccomp=unconfined''] else [])"

text \<open>Lines 401 to 406: the network mode, the zero value unless the endpoint starts with \<open>http://\<close>.\<close>

definition networkMode :: "platform \<Rightarrow> string" where
  "networkMode P =
     (let isLocalHttpCloud = HasPrefix (CloudRootEndpointUrl P) ''http://''
      in if isLocalHttpCloud then NetworkHost else [])"

text \<open>
  \<open>getDockerOptions\<close> returns the specification, or stops the process; with it comes the
  value of \<open>containerName\<close> afterwards, which is assigned after the four directories
  are resolved and before the volumes are read.
\<close>

definition getDockerOptions ::
  "platform \<Rightarrow> scan_context \<Rightarrow> string \<Rightarrow> string \<Rightarrow> (failure + container_create_config) \<times> string"
where
  "getDockerOptions P c0 img containerName0 =
     (let cmdOpts = GetIdeArgs P c0;
          c = ExtractQodanaEnvironment P c0;
          env = dockerEnv P c
      in case absPaths P c of
           Inl f \<Rightarrow> (Inl f, containerName0)
         | Inr paths \<Rightarrow>
             (let containerName = newContainerName P c
              in case globalConfigVolume P c of
                   Inl f \<Rightarrow> (Inl f, containerName)
                 | Inr globalConfig \<Rightarrow>
                     (case userVolumes P (Volumes c) (fixedVolumes P paths @ globalConfig) of
                        Inl f \<Rightarrow> (Inl f, containerName)
                      | Inr volumes \<Rightarrow>
                          (Inr \<lparr>Name = containerName,
                                Config = \<lparr>ConfigImage = img,
                                          Cmd = cmdOpts,
                                          Tty = IsInteractive P,
                                          AttachStdout = True,
                                          AttachStderr = True,
                                          ContainerEnv = env,
                                          ContainerUser = User c,
                                          ExposedPorts = exposedPorts c\<rparr>,
                                HostConfig = \<lparr>AutoRemove = (Getenv P (QodanaCliContainerKeep P) = []),
                                              Mounts = volumes,
                                              CapAdd = capAdd img,
                                              SecurityOpt = securityOpt img,
                                              PortBindings = portBindings c,
                                              NetworkMode = networkMode P\<rparr>\<rparr>,
                           containerName))))"

section \<open>Container lifecycle driver (runQodanaContainer)\<close>

definition runContainer :: "engine \<Rightarrow> container_create_config \<Rightarrow> (failure + unit) \<times> engine_event list" where
  "runContainer client opts =
     (let created = ContainerCreate client opts
      in case created of
           Inl e \<Rightarrow>
             (Inl (Fatal (''couldn't create the container '' @ e)), [ContainerCreateEv opts created])
         | Inr ident \<Rightarrow>
             (case ContainerStart client ident of
                Some e \<Rightarrow>
                  (Inl (Fatal (''couldn't bootstrap the container '' @ e)),
                   [ContainerCreateEv opts created, ContainerStartEv ident (Some e)])
              | None \<Rightarrow>
                  (Inr (), [ContainerCreateEv opts created, ContainerStartEv ident None])))"

definition getContainerExitCode :: "engine \<Rightarrow> string \<Rightarrow> (failure + int) \<times> engine_event list" where
  "getContainerExitCode client ident =
     (let reply = ContainerWait client ident
      in case reply of
           ErrCh (Some e) \<Rightarrow>
             (Inl (Fatal (''container hasn't finished '' @ e)), [ContainerWaitEv ident reply])
         | ErrCh None \<Rightarrow> (Inr 0, [ContainerWaitEv ident reply])
         | StatusCh code \<Rightarrow> (Inr code, [ContainerWaitEv ident reply]))"

text \<open>
  \<open>runQodanaContainer\<close> returns the exit status or stops the process; with the result
  come the engine calls made, in order, and the value of \<open>containerName\<close> afterwards.
  Not modelled, because they make no call that the theorems below are about:
  \<open>CheckImage\<close> (modelled above; it only prints), \<open>fixDarwinCaches\<close> (it removes files and
  only warns on failure), the progress spinner, the debug log of the equivalent
  \<open>docker run\<close> command, and the goroutine \<open>followLinter\<close>, which is started after the
  container and reads its logs.
\<close>

definition runQodanaContainer ::
  "platform \<Rightarrow> engine \<Rightarrow> scan_context \<Rightarrow> string \<Rightarrow> (failure + int) \<times> engine_event list \<times> string"
where
  "runQodanaContainer P docker c containerName0 =
     (case Analyser c of
        NativeAnalyzer _ \<Rightarrow> (Inl (Fatal ''Context is not a DockerAnalyzer''), [], containerName0)
      | DockerAnalyzer img \<Rightarrow>
          (case Info docker of
             Inl e \<Rightarrow>
               (Inl (Fatal (''Couldn't retrieve Docker daemon information'' @ e)),
                [InfoEv (Info docker)], containerName0)
           | Inr info \<Rightarrow>
               if OSType info \<noteq> ''linux'' then (Inr 1, [InfoEv (Info docker)], containerName0)
               else
                 (case (if \<not> SkipPull c then PullImage P docker img else (Inr (), [])) of
                    (Inl f, pulls) \<Rightarrow> (Inl f, InfoEv (Info docker) # pulls, containerName0)
                  | (Inr _, pulls) \<Rightarrow>
                      (case getDockerOptions P c img containerName0 of
                         (Inl f, containerName) \<Rightarrow>
                           (Inl f, InfoEv (Info docker) # pulls, containerName)
                       | (Inr dockerConfig, containerName) \<Rightarrow>
                           (case runContainer docker dockerConfig of
                              (Inl f, starts) \<Rightarrow>
                                (Inl f, InfoEv (Info docker) # pulls @ starts, containerName)
                            | (Inr _, starts) \<Rightarrow>
                                (case getContainerExitCode docker (Name dockerConfig) of
                                   (r, waits) \<Rightarrow>
                                     (r, InfoEv (Info docker) # pulls @ starts @ waits,
                                      containerName)))))))"

section \<open>Paths on a POSIX host (package path/filepath of the Go library)\<close>

text \<open>
  The archive code calls \<open>filepath.Join\<close>, \<open>Clean\<close>, \<open>Dir\<close> and \<open>Rel\<close>. They are
  modelled for a host whose path separator is \<open>/\<close> and which has no volume names.
  \<open>Clean\<close> drops empty and \<open>.\<close> elements, lets a \<open>..\<close> element remove the element
  before it, drops a \<open>..\<close> that would climb above the root and keeps one that climbs
  above the start of a relative path.
\<close>

definition cleanElem :: "bool \<Rightarrow> string \<Rightarrow> string list \<Rightarrow> string list" where
  "cleanElem rooted e out =
     (if e = [] \<or> e = ''.'' then out
      else if e = ''..'' then
        (if out \<noteq> [] \<and> last out \<noteq> ''..'' then butlast out
         else if \<not> rooted then out @ [''..'']
         else out)
      else out @ [e])"

definition Clean :: "string \<Rightarrow> string" where
  "Clean path =
     (if path = [] then ''.''
      else
        (let rooted = (hd path = CHR ''/'');
             out = fold (cleanElem rooted) (Split path (CHR ''/'')) []
         in if rooted then ''/'' @ Join out ''/''
            else if out = [] then ''.''
            else Join out ''/''))"

text \<open>\<open>filepath.Join\<close> of two elements: the non-empty ones, joined and cleaned.\<close>

definition filepathJoin :: "string \<Rightarrow> string \<Rightarrow> string" where
  "filepathJoin a b =
     (if a \<noteq> [] then Clean (a @ ''/'' @ b)
      else if b \<noteq> [] then Clean b
      else [])"

text \<open>\<open>filepath.Dir\<close>: the path up to its last separator, cleaned.\<close>

definition Dir :: "string \<Rightarrow> string" where
  "Dir path = Clean (rev (dropWhile (\<lambda>x. x \<noteq> CHR ''/'') (rev path)))"

text \<open>
  The loop of \<open>filepath.Rel\<close>, which walks the two cleaned paths element by element
  while both have characters left and the elements agree. The arguments are the parts
  of base and target from the positions \<open>b0\<close> and \<open>t0\<close> on; the result is the element
  of the base at which the loop stopped (\<open>base[b0:bi]\<close>, empty when a path ran out) and
  the two parts that are left.
\<close>

function relLoop :: "string \<Rightarrow> string \<Rightarrow> string \<times> string \<times> string" where
  "relLoop b t =
     (if b = [] \<or> t = [] then ([], b, t)
      else if takeWhile (\<lambda>x. x \<noteq> CHR ''/'') t \<noteq> takeWhile (\<lambda>x. x \<noteq> CHR ''/'') b
        then (takeWhile (\<lambda>x. x \<noteq> CHR ''/'') b, b, t)
      else relLoop (drop 1 (dropWhile (\<lambda>x. x \<noteq> CHR ''/'') b))
                   (drop 1 (dropWhile (\<lambda>x. x \<noteq> CHR ''/'') t)))"
  by pat_completeness auto
termination
proof (relation "measure (\<lambda>(b, t). length b)")
  show "wf (measure (\<lambda>(b, t). length b))" by simp
next
  fix b t :: string
  assume "\<not> (b = [] \<or> t = [])"
  then have "0 < length b" by simp
  moreover have "length (dropWhile (\<lambda>x. x \<noteq> CHR ''/'') b) \<le> length b"
    by (rule length_dropWhile_le)
  ultimately have "length (dropWhile (\<lambda>x. x \<noteq> CHR ''/'') b) - 1 < length b"
    by linarith
  then show "((drop 1 (dropWhile (\<lambda>x. x \<noteq> CHR ''/'') b), drop 1 (dropWhile (\<lambda>x. x \<noteq> CHR ''/'') t)), b, t)
          \<in> measure (\<lambda>(b, t). length b)"
    by simp
qed

declare relLoop.simps [simp del]

definition Rel :: "string \<Rightarrow> string \<Rightarrow> err + string" where
  "Rel basepath targpath =
     (let base = Clean basepath;
          targ = Clean targpath
      in if targ = base then Inr ''.''
         else
           (let base' = (if base = ''.'' then [] else base);
                baseSlashed = (base' \<noteq> [] \<and> hd base' = CHR ''/'');
                targSlashed = (targ \<noteq> [] \<and> hd targ = CHR ''/'')
            in if baseSlashed \<noteq> targSlashed then
                 Inl (''Rel: can't make '' @ targpath @ '' relative to '' @ basepath)
               else
                 (case relLoop base' targ of
                    (stopped, baseRest, targRest) \<Rightarrow>
                      if stopped = ''..'' then
                        Inl (''Rel: can't make '' @ targpath @ '' relative to '' @ basepath)
                      else if baseRest \<noteq> [] then
                        Inr (''..'' @
                             concat (replicate (length (filter (\<lambda>x. x = CHR ''/'') baseRest)) ''/..'') @
                             (if targRest \<noteq> [] then ''/'' @ targRest else []))
                      else Inr targRest)))"

section \<open>Archive extraction (platform/embed.go)\<close>

text \<open>
  The file system calls that create or write something, in order, are what a run of the
  extraction leaves behind; the replies of the file system are arguments.
\<close>

datatype fs_write = MkdirAllW string | OpenFileW string | CopyW string

record filesystem =
  Stat :: "string \<Rightarrow> err option"
  MkdirAll :: "string \<Rightarrow> err option"
  OpenFile :: "string \<Rightarrow> err option"
  Copy :: "string \<Rightarrow> err option"
  CloseFile :: "string \<Rightarrow> err option"

text \<open>An entry of a zip archive: its name, whether it is a directory, and the errors of
  opening and closing its content.\<close>

record zip_file =
  ZipName :: string
  ZipIsDir :: bool
  ZipOpenErr :: "err option"
  ZipCloseErr :: "err option"

text \<open>\<open>zip.OpenReader\<close> returns an error or a reader with its files; closing it can fail.\<close>

record zip_reader =
  ZipFiles :: "zip_file list"
  ZipReaderCloseErr :: "err option"

datatype tar_type = TypeDir | TypeReg | TypeOther

record tar_header =
  TarName :: string
  Typeflag :: tar_type

text \<open>
  A \<open>.tar.gz\<close> file as \<open>extractTarGz\<close> sees it: the errors of opening it and of
  starting to decompress it, what each call of \<open>tarReader.Next\<close> returns (the end of the
  list is \<open>io.EOF\<close>), and the errors of the two deferred closes.
\<close>

record tar_gz =
  TarOpenErr :: "err option"
  GzipErr :: "err option"
  TarEntries :: "(err + tar_header) list"
  GzipCloseErr :: "err option"
  TarCloseErr :: "err option"

text \<open>\<open>isInDirectory\<close> checks that the target is within the destination directory.\<close>

definition isInDirectory :: "string \<Rightarrow> string \<Rightarrow> bool" where
  "isInDirectory destPath target =
     (case Rel destPath target of
        Inl e \<Rightarrow> False
      | Inr relative \<Rightarrow> \<not> HasPrefix relative ''..'')"

text \<open>
  The loop of \<open>unpackZip\<close> over the files of the archive. The result is the pair that
  \<open>unpackZip\<close> returns, an error (or \<open>nil\<close>) and the flag \<open>done\<close>.
\<close>

fun unpackZipFiles ::
  "filesystem \<Rightarrow> string \<Rightarrow> zip_file list \<Rightarrow> (err option \<times> bool) \<times> fs_write list" where
  "unpackZipFiles fs destPath [] = ((None, False), [])"
| "unpackZipFiles fs destPath (f # files) =
     (let fpath = filepathJoin destPath (ZipName f)
      in if \<not> HasPrefix fpath (Clean destPath @ ''/'') then
           ((Some (fpath @ '': illegal file path''), True), [])
         else if ZipIsDir f then
           (case MkdirAll fs fpath of
              Some e \<Rightarrow> ((Some e, True), [MkdirAllW fpath])
            | None \<Rightarrow>
                (case unpackZipFiles fs destPath files of
                   (r, ws) \<Rightarrow> (r, MkdirAllW fpath # ws)))
         else
           (case MkdirAll fs (Dir fpath) of
              Some e \<Rightarrow> ((Some e, True), [MkdirAllW (Dir fpath)])
            | None \<Rightarrow>
           (case OpenFile fs fpath of
              Some e \<Rightarrow> ((Some e, True), [MkdirAllW (Dir fpath), OpenFileW fpath])
            | None \<Rightarrow>
           (case ZipOpenErr f of
              Some e \<Rightarrow> ((Some e, True), [MkdirAllW (Dir fpath), OpenFileW fpath])
            | None \<Rightarrow>
           (case Copy fs fpath of
              Some e \<Rightarrow> ((Some e, True), [MkdirAllW (Dir fpath), OpenFileW fpath, CopyW fpath])
            | None \<Rightarrow>
           (case CloseFile fs fpath of
              Some e \<Rightarrow> ((Some e, True), [MkdirAllW (Dir fpath), OpenFileW fpath, CopyW fpath])
            | None \<Rightarrow>
           (case ZipCloseErr f of
              Some e \<Rightarrow> ((Some e, True), [MkdirAllW (Dir fpath), OpenFileW fpath, CopyW fpath])
            | None \<Rightarrow>
                (case unpackZipFiles fs destPath files of
                   (r, ws) \<Rightarrow>
                     (r, MkdirAllW (Dir fpath) # OpenFileW fpath # CopyW fpath # ws)))))))))"

text \<open>
  \<open>unpackZip\<close>: the deferred close of the reader runs when the function returns and
  stops the process when it fails.
\<close>

definition unpackZip ::
  "filesystem \<Rightarrow> err + zip_reader \<Rightarrow> string \<Rightarrow> (failure + err option \<times> bool) \<times> fs_write list" where
  "unpackZip fs archive destPath =
     (case archive of
        Inl e \<Rightarrow> (Inr (Some e, True), [])
      | Inr zipReader \<Rightarrow>
          (case unpackZipFiles fs destPath (ZipFiles zipReader) of
             (r, ws) \<Rightarrow>
               (case ZipReaderCloseErr zipReader of
                  Some e \<Rightarrow> (Inl (Fatal e), ws)
                | None \<Rightarrow> (Inr r, ws))))"

text \<open>
  The loop of \<open>extractTarGz\<close>. When copying the content of a regular file fails, the
  file is closed and the error returned is the one of the close, which shadows the one
  of the copy: \<open>nil\<close> when the close succeeds.
\<close>

fun extractTarEntries ::
  "filesystem \<Rightarrow> string \<Rightarrow> (err + tar_header) list \<Rightarrow> (err option \<times> bool) \<times> fs_write list" where
  "extractTarEntries fs destPath [] = ((None, False), [])"
| "extractTarEntries fs destPath (Inl e # entries) = ((Some e, True), [])"
| "extractTarEntries fs destPath (Inr header # entries) =
     (let target = filepathJoin destPath (TarName header)
      in if \<not> isInDirectory destPath target then
           ((Some (target @ '': illegal file path''), True), [])
         else
           (case Typeflag header of
              TypeDir \<Rightarrow>
                (case Stat fs target of
                   None \<Rightarrow> extractTarEntries fs destPath entries
                 | Some _ \<Rightarrow>
                     (case MkdirAll fs target of
                        Some e \<Rightarrow> ((Some e, True), [MkdirAllW target])
                      | None \<Rightarrow>
                          (case extractTarEntries fs destPath entries of
                             (r, ws) \<Rightarrow> (r, MkdirAllW target # ws))))
            | TypeReg \<Rightarrow>
                (case OpenFile fs target of
                   Some e \<Rightarrow> ((Some e, True), [OpenFileW target])
                 | None \<Rightarrow>
                     (case Copy fs target of
                        Some _ \<Rightarrow> ((CloseFile fs target, True), [OpenFileW target, CopyW target])
                      | None \<Rightarrow>
                          (case CloseFile fs target of
                             Some e \<Rightarrow> ((Some e, True), [OpenFileW target, CopyW target])
                           | None \<Rightarrow>
                               (case extractTarEntries fs destPath entries of
                                  (r, ws) \<Rightarrow> (r, OpenFileW target # CopyW target # ws)))))
            | TypeOther \<Rightarrow> extractTarEntries fs destPath entries))"

definition extractTarGz ::
  "filesystem \<Rightarrow> tar_gz \<Rightarrow> string \<Rightarrow> (failure + err option \<times> bool) \<times> fs_write list" where
  "extractTarGz fs archive destPath =
     (case TarOpenErr archive of
        Some e \<Rightarrow> (Inr (Some e, True), [])
      | None \<Rightarrow>
          (case GzipErr archive of
             Some e \<Rightarrow>
               (case TarCloseErr archive of
                  Some e' \<Rightarrow> (Inl (Fatal e'), [])
                | None \<Rightarrow> (Inr (Some e, True), []))
           | None \<Rightarrow>
               (case extractTarEntries fs destPath (TarEntries archive) of
                  (r, ws) \<Rightarrow>
                    (case GzipCloseErr archive of
                       Some e' \<Rightarrow> (Inl (Fatal e'), ws)
                     | None \<Rightarrow>
                         (case TarCloseErr archive of
                            Some e' \<Rightarrow> (Inl (Fatal e'), ws)
                          | None \<Rightarrow> (Inr r, ws))))))"

text \<open>
  \<open>Decompress\<close> treats the archive as a zip file when its name ends in \<open>.zip\<close> or the
  host is Windows, and as a \<open>.tar.gz\<close> file otherwise; the two arguments after the name
  are what the file is when it is read in the one way and in the other.
\<close>

definition Decompress ::
  "string \<Rightarrow> filesystem \<Rightarrow> string \<Rightarrow> err + zip_reader \<Rightarrow> tar_gz \<Rightarrow> string
     \<Rightarrow> (failure + err option) \<times> fs_write list" where
  "Decompress goos fs archivePath asZip asTarGz destPath =
     (let isZip = suffix ''.zip'' archivePath
      in case (if isZip \<or> goos = ''windows'' then unpackZip fs asZip destPath
               else extractTarGz fs asTarGz destPath) of
           (Inl f, ws) \<Rightarrow> (Inl f, ws)
         | (Inr (e, done), ws) \<Rightarrow> (Inr (if done then e else None), ws))"

text \<open>
  What it means for a path to lie within a directory, independently of how the code
  checks it: both are resolved against the working directory of the process (as
  \<open>filepath.Abs\<close> does), and the elements of the directory are then the first elements
  of the path.
\<close>

definition resolveFrom :: "string \<Rightarrow> string \<Rightarrow> string" where
  "resolveFrom cwd p = (if HasPrefix p ''/'' then Clean p else filepathJoin cwd p)"

definition pathElems :: "string \<Rightarrow> string list" where
  "pathElems p = filter (\<lambda>e. e \<noteq> []) (Split p (CHR ''/''))"

definition withinDir :: "string \<Rightarrow> string \<Rightarrow> string \<Rightarrow> bool" where
  "withinDir cwd dir p = prefix (pathElems (resolveFrom cwd dir)) (pathElems (resolveFrom cwd p))"

section \<open>The spec's reading of the network-mode rule\<close>

text \<open>
  The spec forces host networking when "the configured cloud endpoint resolves to a
  plaintext (non-TLS) local endpoint", and its scenario reads "URL scheme is \<open>http\<close> and
  host is local". This predicate follows those words: the scheme is \<open>http\<close> and the host,
  the part of the URL between the scheme and the next \<open>/\<close> or \<open>:\<close>, names the local
  machine.
\<close>

definition urlHost :: "string \<Rightarrow> string" where
  "urlHost url = takeWhile (\<lambda>x. x \<noteq> CHR ''/'' \<and> x \<noteq> CHR '':'') (drop 7 url)"

definition isLocalHost :: "string \<Rightarrow> bool" where
  "isLocalHost h = (h = ''localhost'' \<or> HasPrefix h ''127.'' \<or> h = ''[::1]'')"

definition spec_isPlaintextLocalEndpoint :: "string \<Rightarrow> bool" where
  "spec_isPlaintextLocalEndpoint url = (HasPrefix url ''http://'' \<and> isLocalHost (urlHost url))"

section \<open>Concrete inputs\<close>

text \<open>
  A POSIX host where the license-only token is set in the environment of the process,
  a context with an upload token, one user volume and a debug port, and the
  specification that \<open>getDockerOptions\<close> builds from them, as a function of the
  environment list and the network mode.
\<close>

definition examplePlatform :: platform where
  "examplePlatform =
     \<lparr>GOOS = ''linux'',
      Version = ''2025.1.0'',
      Getenv = (\<lambda>k. if k = ''QODANA_LICENSE_ONLY_TOKEN'' then ''lic'' else []),
      Abs = (\<lambda>d. Inr d),
      IsInteractive = False,
      CloudRootEndpointUrl = ''https://qodana.cloud'',
      Lower = (\<lambda>s. s),
      cliconfig_Load =
        Inr (\<lambda>h. Inr \<lparr>Username = ''u'', Password = ''p'', Auth = [], ServerAddress = h,
                       IdentityToken = [], RegistryToken = []\<rparr>),
      json_Marshal = (\<lambda>a. Inr (''{'' @ Username a @ '','' @ Password a @ ''}'')),
      base64_URLEncoding = (\<lambda>s. ''b64:'' @ s),
      QodanaToken = ''QODANA_TOKEN'',
      QodanaLicenseOnlyToken = ''QODANA_LICENSE_ONLY_TOKEN'',
      QodanaCliContainerName = ''QODANA_CLI_CONTAINER_NAME'',
      QodanaCliContainerKeep = ''QODANA_CLI_CONTAINER_KEEP'',
      DataCacheDir = ''/data/cache'',
      DataProjectDir = ''/data/project'',
      DataResultsDir = ''/data/results'',
      DataResultsReportDir = ''/data/results/report'',
      DataGlobalConfigDir = ''/data/qodana-global-config'',
      GetIdeArgs = (\<lambda>c. []),
      QodanaEnvironment = [(''QODANA_ENV'', ''cli'')],
      EnvExtractedFromOsEnv = (\<lambda>env k v. env @ [k @ ''='' @ v])\<rparr>"

definition exampleImage :: string where
  "exampleImage = ''jetbrains/qodana-jvm:2025.1''"

definition exampleContext :: scan_context where
  "exampleContext =
     \<lparr>Analyser = DockerAnalyzer exampleImage,
      CacheDir = ''/home/u/cache'',
      ProjectDir = ''/home/u/project'',
      ResultsDir = ''/home/u/results'',
      ReportDir = ''/home/u/results/report'',
      SkipPull = False,
      Env = [],
      QodanaUploadToken = ''tok'',
      ContextId = ''0a1b2c3d-4e5f6071'',
      GlobalConfigurationsDir = [],
      Volumes = [''/opt/tools:/tools''],
      User = ''1000:1000'',
      JvmDebugPort = 5005\<rparr>"

definition exampleConfig :: "string list \<Rightarrow> string \<Rightarrow> container_create_config" where
  "exampleConfig env mode =
     \<lparr>Name = ''qodana-cli-0a1b2c3d-4e5f6071'',
      Config = \<lparr>ConfigImage = exampleImage,
                Cmd = [],
                Tty = False,
                AttachStdout = True,
                AttachStderr = True,
                ContainerEnv = env,
                ContainerUser = ''1000:1000'',
                ExposedPorts = {''5005''}\<rparr>,
      HostConfig = \<lparr>AutoRemove = True,
                    Mounts = [bindMount ''/home/u/cache'' ''/data/cache'',
                              bindMount ''/home/u/project'' ''/data/project'',
                              bindMount ''/home/u/results'' ''/data/results'',
                              bindMount ''/home/u/results/report'' ''/data/results/report'',
                              bindMount ''/opt/tools'' ''/tools''],
                    CapAdd = [],
                    SecurityOpt = [],
                    PortBindings =
                      [''5005'' \<mapsto> [\<lparr>HostIP = ''0.0.0.0'', HostPort = ''5005''\<rparr>]],
                    NetworkMode = mode\<rparr>\<rparr>"

text \<open>
  An engine on Linux (or on the given OS) whose registry accepts every pull, one whose
  registry rejects the anonymous pull, one that does not know the image, one whose
  registry rejects the credentials too, a platform whose Docker configuration file
  cannot be loaded, a context with a native analyzer, and a context with a volume that
  has no target.
\<close>

definition exampleEngine :: "string \<Rightarrow> engine" where
  "exampleEngine os =
     \<lparr>Info = Inr \<lparr>OSType = os\<rparr>,
      ImagePull = (\<lambda>img auth. Inr \<lparr>CopyErr = None, CloseErr = None\<rparr>),
      ContainerCreate = (\<lambda>cfg. Inr ''c0ffee''),
      ContainerStart = (\<lambda>ident. None),
      ContainerWait = (\<lambda>ident. StatusCh 0),
      ContainerList = Inr [],
      ContainerStop = (\<lambda>name. None)\<rparr>"

definition privateRegistryEngine :: engine where
  "privateRegistryEngine =
     (exampleEngine ''linux'')
       \<lparr>ImagePull := (\<lambda>img auth. if auth = [] then Inl ''unauthorized: authentication required''
                                 else Inr \<lparr>CopyErr = None, CloseErr = None\<rparr>)\<rparr>"

definition missingImageEngine :: engine where
  "missingImageEngine =
     (exampleEngine ''linux'')\<lparr>ImagePull := (\<lambda>img auth. Inl ''manifest unknown'')\<rparr>"

definition closedRegistryEngine :: engine where
  "closedRegistryEngine =
     (exampleEngine ''linux'')
       \<lparr>ImagePull := (\<lambda>img auth. if auth = [] then Inl ''unauthorized: authentication required''
                                 else Inl ''access denied'')\<rparr>"

definition privateImage :: string where
  "privateImage = ''registry.example.com/team/linter:1''"

definition noConfigPlatform :: platform where
  "noConfigPlatform = examplePlatform\<lparr>cliconfig_Load := Inl ''config file is malformed''\<rparr>"


definition badVolumeContext :: scan_context where
  "badVolumeContext = exampleContext\<lparr>Volumes := [''/opt/tools'']\<rparr>"

text \<open>A file system on which every call succeeds and no path exists yet.\<close>

definition exampleFs :: filesystem where
  "exampleFs =
     \<lparr>Stat = (\<lambda>p. Some ''no such file or directory''),
      MkdirAll = (\<lambda>p. None),
      OpenFile = (\<lambda>p. None),
      Copy = (\<lambda>p. None),
      CloseFile = (\<lambda>p. None)\<rparr>"

text \<open>
  A zip archive and a \<open>.tar.gz\<close> archive, each with one regular file whose name starts
  by climbing out of the destination.
\<close>

definition evilZip :: zip_reader where
  "evilZip =
     \<lparr>ZipFiles = [\<lparr>ZipName = ''../evil'', ZipIsDir = False, ZipOpenErr = None, ZipCloseErr = None\<rparr>],
      ZipReaderCloseErr = None\<rparr>"

definition evilTarGz :: tar_gz where
  "evilTarGz =
     \<lparr>TarOpenErr = None, GzipErr = None,
      TarEntries = [Inr \<lparr>TarName = ''../evil'', Typeflag = TypeReg\<rparr>],
      GzipCloseErr = None, TarCloseErr = None\<rparr>"

section \<open>Theorems\<close>

subsection \<open>Splitting\<close>

lemma Split_not_Nil: "Split s d \<noteq> []"
  by (induction s) (auto split: list.splits)

lemma Split_no_delim: "d \<notin> set s \<Longrightarrow> Split s d = [s]"
  by (induction s) auto

lemma Split_append: "d \<notin> set s \<Longrightarrow> Split (s @ d # t) d = s # Split t d"
  by (induction s) auto

lemma Split_hd: "hd (Split s d) = takeWhile (\<lambda>x. x \<noteq> d) s"
  by (induction s) (auto split: list.splits simp: Split_not_Nil)

lemma SafeSplit_first: "SafeSplit s d 0 = takeWhile (\<lambda>x. x \<noteq> d) s"
  using Split_hd [of s d] Split_not_Nil [of s d] by (simp add: SafeSplit_def hd_conv_nth)

subsection \<open>Image policy\<close>

lemma Contains_iff: "Contains s sub \<longleftrightarrow> (\<exists>ps ss. s = ps @ sub @ ss)"
  by (simp add: Contains_def sublist_def)

lemma Contains_suffix: "suffix sub s \<Longrightarrow> Contains s sub"
proof -
  assume "suffix sub s"
  then obtain zs where "s = zs @ sub @ []" by (auto simp: suffix_def)
  then show ?thesis unfolding Contains_iff by blast
qed

lemma hasExactVersionTag_no_colon: "CHR '':'' \<notin> set linter \<Longrightarrow> \<not> hasExactVersionTag linter"
  by (auto simp: hasExactVersionTag_def Contains_iff)

lemma hasExactVersionTag_latest: "suffix '':latest'' linter \<Longrightarrow> \<not> hasExactVersionTag linter"
  by (simp add: hasExactVersionTag_def Contains_suffix)

text \<open>
  Claim C5. For an image reference with no tag (no \<open>":"\<close> in it) or tagged
  \<open>latest\<close> (it ends in \<open>":latest"\<close>), and a CLI version that is neither a nightly
  nor a dev build, \<open>CheckImage\<close> prints the unpinned-version warning, exactly once and
  with the reference and the pinned suggestion as arguments, and prints no
  incompatible-version warning.
\<close>

theorem C5_unpinned_precedes_incompatible:
  assumes "CHR '':'' \<notin> set linter \<or> suffix '':latest'' linter"
    and "\<not> Contains version ''nightly''" and "\<not> Contains version ''dev''"
  shows "filter is_Unpinned (CheckImage version linter) =
           [Unpinned linter (SafeSplit linter (CHR '':'') 0 @ '':'' @ ReleaseVersion)]
         \<and> filter is_Incompatible (CheckImage version linter) = []"
proof -
  from assms(1) have "\<not> hasExactVersionTag linter"
    using hasExactVersionTag_no_colon hasExactVersionTag_latest by blast
  with assms(2,3) show ?thesis
    by (simp add: CheckImage_def)
qed

theorem C5_unpinned_precedes_incompatible_witness:
  "filter is_Unpinned (CheckImage ''2025.1.0'' ''jetbrains/qodana-jvm:latest'') =
     [Unpinned ''jetbrains/qodana-jvm:latest'' ''jetbrains/qodana-jvm:2025.1'']
   \<and> filter is_Incompatible (CheckImage ''2025.1.0'' ''jetbrains/qodana-jvm:latest'') = []"
proof -
  have a: "CHR '':'' \<notin> set ''jetbrains/qodana-jvm:latest'' \<or> suffix '':latest'' ''jetbrains/qodana-jvm:latest''"
    by (simp add: suffix_to_prefix)
  have b: "\<not> Contains ''2025.1.0'' ''nightly''" by code_simp
  have c: "\<not> Contains ''2025.1.0'' ''dev''" by code_simp
  have d: "SafeSplit ''jetbrains/qodana-jvm:latest'' (CHR '':'') 0 = ''jetbrains/qodana-jvm''"
    by (simp add: SafeSplit_def)
  show ?thesis
    using C5_unpinned_precedes_incompatible [OF a b c] by (simp add: d ReleaseVersion_def)
qed


subsection \<open>Run identifier\<close>

text \<open>The model of \<open>sha256.Sum256\<close> on the test vector \<open>abc\<close> of FIPS 180-4.\<close>

lemma Sum256_abc:
  "Sum256 ''abc'' =
     [0xba, 0x78, 0x16, 0xbf, 0x8f, 0x01, 0xcf, 0xea, 0x41, 0x41, 0x40, 0xde, 0x5d, 0xae, 0x22, 0x23,
      0xb0, 0x03, 0x61, 0xa3, 0x96, 0x17, 0x7a, 0x9c, 0xb4, 0x10, 0xff, 0x61, 0xf2, 0x00, 0x15, 0xad]"
  by code_simp

lemma length_round256: "length s = 8 \<Longrightarrow> length (round256 s kw) = 8"
proof -
  assume "length s = 8"
  then obtain a b c d e f g h where "s = [a, b, c, d, e, f, g, h]"
    by (auto simp: eval_nat_numeral length_Suc_conv)
  then show ?thesis by (cases kw) (simp add: Let_def)
qed

lemma length_foldl_round256: "length s = 8 \<Longrightarrow> length (foldl round256 s kws) = 8"
  by (induction kws arbitrary: s) (simp_all add: length_round256)

lemma length_block256: "length hs = 8 \<Longrightarrow> length (block256 hs ws) = 8"
  by (simp add: block256_def length_foldl_round256)

lemma length_blocks256: "length hs = 8 \<Longrightarrow> length (blocks256 n hs ws) = 8"
  by (induction n arbitrary: hs ws) (simp_all add: length_block256)

lemma length_concat_be32bytes: "length (concat (map be32bytes xs)) = 4 * length xs"
  by (induction xs) (simp_all add: be32bytes_def)

lemma length_Sum256: "length (Sum256 s) = 32"
  by (simp add: Sum256_def Let_def length_concat_be32bytes length_blocks256 init256_def)

lemma hextable_spec_all: "\<forall>n \<in> set [0..<16]. hextable ! n = spec_hexDigit n"
  by code_simp

lemma hextable_spec: "n < 16 \<Longrightarrow> hextable ! n = spec_hexDigit n"
  using hextable_spec_all by simp

lemma high_nibble: "unat (drop_bit 4 (b::8 word)) = unat b div 16"
  by (simp add: drop_bit_eq_div unat_div)

lemma low_nibble: "unat (take_bit 4 (b::8 word)) = unat b mod 16"
  by (simp add: take_bit_eq_mod unat_mod)

lemma byte_less: "unat (b::8 word) < 256"
  using unsigned_less [of b, where 'a=nat] by simp

lemma getHash_spec: "getHash s = spec_sha256_hex s"
proof -
  have "hextable ! unat (drop_bit 4 b) = spec_hexDigit (unat b div 16)" for b :: "8 word"
    using byte_less [of b] by (simp add: high_nibble hextable_spec)
  moreover have "hextable ! unat (take_bit 4 b) = spec_hexDigit (unat b mod 16)" for b :: "8 word"
    by (simp add: low_nibble hextable_spec)
  ultimately show ?thesis
    by (simp add: getHash_def spec_sha256_hex_def EncodeToString_def)
qed

lemma length_getHash: "length (getHash s) = 64"
  by (simp add: getHash_spec spec_sha256_hex_def length_concat length_Sum256 sum_list_triv
      comp_def)

lemma sliceTo_getHash: "sliceTo (getHash s) 8 = Inr (take 8 (spec_sha256_hex s))"
  using length_getHash [of s] by (simp add: sliceTo_def getHash_spec)

lemma computeId_Inr:
  "computeId absf linter ide projectDir =
     Inr (take 8 (spec_sha256_hex (if linter \<noteq> [] then linter else ide)) @ ''-'' @
          take 8 (spec_sha256_hex (case absf projectDir of Inl e \<Rightarrow> [] | Inr p \<Rightarrow> p)))"
  by (simp add: computeId_def sliceTo_getHash)

lemma Sum256_example_analyzer:
  "Sum256 ''jetbrains/qodana-jvm:2025.1'' =
     [0xe7, 0x09, 0x02, 0x87, 0xdf, 0x48, 0x2e, 0xa7, 0xbe, 0x6c, 0x0e, 0xed, 0xd2, 0xe4, 0xcb, 0x92,
      0x9e, 0xe0, 0x01, 0x5b, 0xce, 0x29, 0x54, 0x4f, 0x59, 0x92, 0x97, 0xcb, 0x7f, 0x14, 0x54, 0xb0]"
  by code_simp

lemma Sum256_example_project:
  "Sum256 ''/home/u/project'' =
     [0x4e, 0xb6, 0xcd, 0x28, 0xfb, 0x98, 0xb7, 0x39, 0xef, 0xcd, 0x7d, 0xdb, 0x5e, 0x40, 0x1e, 0xf2,
      0x3a, 0x08, 0x1d, 0xfa, 0xba, 0x1d, 0xe4, 0x27, 0x44, 0x69, 0xf8, 0xe5, 0xbd, 0x49, 0x58, 0x54]"
  by code_simp

lemma hex_example_analyzer: "take 8 (spec_sha256_hex ''jetbrains/qodana-jvm:2025.1'') = ''e7090287''"
  unfolding spec_sha256_hex_def Sum256_example_analyzer by code_simp

lemma hex_example_project: "take 8 (spec_sha256_hex ''/home/u/project'') = ''4eb6cd28''"
  unfolding spec_sha256_hex_def Sum256_example_project by code_simp

text \<open>
  Claim C6. \<open>computeId\<close> always returns (its two slices are in range). When the
  project directory resolves to an absolute path, the identifier is the first 8
  characters of the hexadecimal SHA-256 of the analyzer identity (the linter when there
  is one, the IDE otherwise), a hyphen, and the first 8 characters of the hexadecimal
  SHA-256 of that absolute path; and every other call with the same analyzer identity
  whose project directory resolves to the same absolute path returns the same
  identifier.
\<close>

theorem C6_computeId_deterministic:
  "\<not> isl (computeId absf linter ide projectDir)
   \<and> (absf projectDir = Inr projectAbs \<longrightarrow>
        computeId absf linter ide projectDir =
          Inr (take 8 (spec_sha256_hex (if linter \<noteq> [] then linter else ide)) @ ''-'' @
               take 8 (spec_sha256_hex projectAbs))
        \<and> ((if linter' \<noteq> [] then linter' else ide') = (if linter \<noteq> [] then linter else ide) \<and>
            absf' projectDir' = Inr projectAbs
            \<longrightarrow> computeId absf' linter' ide' projectDir' = computeId absf linter ide projectDir))"
  by (simp add: computeId_Inr)

theorem C6_computeId_deterministic_witness:
  "computeId (\<lambda>d. Inr (''/home/u/'' @ d)) ''jetbrains/qodana-jvm:2025.1'' ''QDJVM'' ''project'' =
     Inr ''e7090287-4eb6cd28''
   \<and> computeId (\<lambda>d. Inr d) [] ''jetbrains/qodana-jvm:2025.1'' ''/home/u/project'' =
     Inr ''e7090287-4eb6cd28''"
proof -
  have a: "(\<lambda>d. Inr (''/home/u/'' @ d)) ''project'' = (Inr ''/home/u/project'' :: err + string)"
    by simp
  have b: "(\<lambda>d. Inr d) ''/home/u/project'' = (Inr ''/home/u/project'' :: err + string)"
    by simp
  have c: "(if [] \<noteq> ([]::string) then [] else ''jetbrains/qodana-jvm:2025.1'') =
           (if ''jetbrains/qodana-jvm:2025.1'' \<noteq> [] then ''jetbrains/qodana-jvm:2025.1'' else ''QDJVM'')"
    by simp
  from C6_computeId_deterministic
    [of "\<lambda>d. Inr (''/home/u/'' @ d)" "''jetbrains/qodana-jvm:2025.1''" "''QDJVM''" "''project''"
        "''/home/u/project''" "[]" "''jetbrains/qodana-jvm:2025.1''" "\<lambda>d. Inr d" "''/home/u/project''"]
  have "computeId (\<lambda>d. Inr (''/home/u/'' @ d)) ''jetbrains/qodana-jvm:2025.1'' ''QDJVM'' ''project'' =
          Inr (take 8 (spec_sha256_hex ''jetbrains/qodana-jvm:2025.1'') @ ''-'' @
               take 8 (spec_sha256_hex ''/home/u/project''))"
    and "computeId (\<lambda>d. Inr d) [] ''jetbrains/qodana-jvm:2025.1'' ''/home/u/project'' =
          computeId (\<lambda>d. Inr (''/home/u/'' @ d)) ''jetbrains/qodana-jvm:2025.1'' ''QDJVM'' ''project''"
    using a b c by simp_all
  then show ?thesis
    by (simp add: hex_example_analyzer hex_example_project)
qed

subsection \<open>The environment extraction changes the environment list only\<close>

lemma fold_WithEnv_frame:
  "\<exists>env. fold (\<lambda>kv c'. WithEnvExtractedFromOsEnv P c' (fst kv) (snd kv)) kvs c = c\<lparr>Env := env\<rparr>"
proof (induction kvs arbitrary: c)
  case Nil
  have "c = c\<lparr>Env := Env c\<rparr>" by simp
  then show ?case by (metis fold_simps(1))
next
  case (Cons kv kvs)
  then obtain env where
    "fold (\<lambda>kv c'. WithEnvExtractedFromOsEnv P c' (fst kv) (snd kv)) kvs
       (WithEnvExtractedFromOsEnv P c (fst kv) (snd kv)) =
     (WithEnvExtractedFromOsEnv P c (fst kv) (snd kv))\<lparr>Env := env\<rparr>"
    by blast
  then show ?case by (auto simp: WithEnvExtractedFromOsEnv_def)
qed

lemma ExtractQodanaEnvironment_frame:
  "ExtractQodanaEnvironment P c = c\<lparr>Env := Env (ExtractQodanaEnvironment P c)\<rparr>"
proof -
  obtain env where e: "ExtractQodanaEnvironment P c = c\<lparr>Env := env\<rparr>"
    unfolding ExtractQodanaEnvironment_def using fold_WithEnv_frame by blast
  then have "Env (ExtractQodanaEnvironment P c) = env" by simp
  with e show ?thesis by simp
qed

lemma ExtractQodanaEnvironment_fields:
  "JvmDebugPort (ExtractQodanaEnvironment P c) = JvmDebugPort c"
  "QodanaUploadToken (ExtractQodanaEnvironment P c) = QodanaUploadToken c"
  "Volumes (ExtractQodanaEnvironment P c) = Volumes c"
  "CacheDir (ExtractQodanaEnvironment P c) = CacheDir c"
  "ProjectDir (ExtractQodanaEnvironment P c) = ProjectDir c"
  "ResultsDir (ExtractQodanaEnvironment P c) = ResultsDir c"
  "ReportDir (ExtractQodanaEnvironment P c) = ReportDir c"
  "GlobalConfigurationsDir (ExtractQodanaEnvironment P c) = GlobalConfigurationsDir c"
  by (subst ExtractQodanaEnvironment_frame, simp)+

subsection \<open>What a specification returned by the builder holds\<close>

lemma getDockerOptions_Inr:
  assumes "fst (getDockerOptions P c img n) = Inr cfg"
  shows "ContainerEnv (Config cfg) = dockerEnv P (ExtractQodanaEnvironment P c)"
    and "ExposedPorts (Config cfg) = exposedPorts (ExtractQodanaEnvironment P c)"
    and "PortBindings (HostConfig cfg) = portBindings (ExtractQodanaEnvironment P c)"
    and "NetworkMode (HostConfig cfg) = networkMode P"
  using assms by (auto simp: getDockerOptions_def Let_def split: sum.splits)

lemma Itoa_5005: "Itoa 5005 = ''5005''"
  by (simp add: Itoa_def natDigits.simps)

lemma example_not_dotnet: "\<not> Contains exampleImage ''dotnet''"
  unfolding exampleImage_def by code_simp

lemma example_getDockerOptions:
  "getDockerOptions (examplePlatform\<lparr>CloudRootEndpointUrl := u\<rparr>) (exampleContext\<lparr>Env := es\<rparr>)
     exampleImage n =
   (Inr (exampleConfig (es @ [''QODANA_ENV=cli'', ''QODANA_TOKEN=tok''])
           (if HasPrefix u ''http://'' then ''host'' else [])),
    ''qodana-cli-0a1b2c3d-4e5f6071'')"
  by (simp add: getDockerOptions_def examplePlatform_def exampleContext_def exampleConfig_def
      ExtractQodanaEnvironment_def WithEnvExtractedFromOsEnv_def dockerEnv_def absPaths_def
      absOrFatal_def newContainerName_def globalConfigVolume_def fixedVolumes_def
      extractDockerVolumes_def SafeSplit_def portBindings_def exposedPorts_def capAdd_def
      securityOpt_def networkMode_def NetworkHost_def Itoa_5005 example_not_dotnet
      containerJvmDebugPort_def Let_def)

lemma example_getDockerOptions_plain:
  "getDockerOptions examplePlatform exampleContext exampleImage n =
   (Inr (exampleConfig [''QODANA_ENV=cli'', ''QODANA_TOKEN=tok''] []),
    ''qodana-cli-0a1b2c3d-4e5f6071'')"
proof -
  have "examplePlatform\<lparr>CloudRootEndpointUrl := ''https://qodana.cloud''\<rparr> = examplePlatform"
    by (simp add: examplePlatform_def)
  moreover have "exampleContext\<lparr>Env := []\<rparr> = exampleContext"
    by (simp add: exampleContext_def)
  moreover have "\<not> HasPrefix ''https://qodana.cloud'' ''http://''"
    by (simp add: HasPrefix_def)
  ultimately show ?thesis
    using example_getDockerOptions [of "''https://qodana.cloud''" "[]" n] by simp
qed

subsection \<open>Cleanup\<close>


subsection \<open>Debug port\<close>

text \<open>
  Claim C8. In every specification the builder returns, the port bindings map the
  internal port \<open>5005\<close> to the single binding of host IP \<open>0.0.0.0\<close> and the requested
  port, in decimal, and the exposed ports are exactly \<open>5005\<close>, when the requested debug
  port is positive; otherwise there are no port bindings and no exposed ports.
\<close>

theorem C8_debug_port:
  assumes "fst (getDockerOptions P c img n) = Inr cfg"
  shows "PortBindings (HostConfig cfg) =
           (if JvmDebugPort c > 0
            then [''5005'' \<mapsto> [\<lparr>HostIP = ''0.0.0.0'', HostPort = Itoa (JvmDebugPort c)\<rparr>]]
            else Map.empty)
         \<and> ExposedPorts (Config cfg) = (if JvmDebugPort c > 0 then {''5005''} else {})"
  using getDockerOptions_Inr(2,3) [OF assms]
  by (simp add: portBindings_def exposedPorts_def ExtractQodanaEnvironment_fields
      containerJvmDebugPort_def)

theorem C8_debug_port_witness:
  "fst (getDockerOptions examplePlatform exampleContext exampleImage initialContainerName) =
     Inr (exampleConfig [''QODANA_ENV=cli'', ''QODANA_TOKEN=tok''] [])
   \<and> JvmDebugPort exampleContext = 5005
   \<and> PortBindings (HostConfig (exampleConfig [''QODANA_ENV=cli'', ''QODANA_TOKEN=tok''] [])) =
       [''5005'' \<mapsto> [\<lparr>HostIP = ''0.0.0.0'', HostPort = ''5005''\<rparr>]]
   \<and> ExposedPorts (Config (exampleConfig [''QODANA_ENV=cli'', ''QODANA_TOKEN=tok''] [])) = {''5005''}"
proof -
  have r: "fst (getDockerOptions examplePlatform exampleContext exampleImage initialContainerName) =
     Inr (exampleConfig [''QODANA_ENV=cli'', ''QODANA_TOKEN=tok''] [])"
    by (simp add: example_getDockerOptions_plain)
  have p: "JvmDebugPort exampleContext = 5005" by (simp add: exampleContext_def)
  show ?thesis using r p C8_debug_port [OF r] by (simp add: Itoa_5005)
qed

subsection \<open>Network mode\<close>

text \<open>
  Claim C7, as stated, fails: an endpoint \<open>http://qodana.example.com\<close> is plaintext but
  not local, and the builder still forces host networking.
\<close>

theorem C7_counterexample:
  "fst (getDockerOptions (examplePlatform\<lparr>CloudRootEndpointUrl := ''http://qodana.example.com''\<rparr>)
          (exampleContext\<lparr>Env := []\<rparr>) exampleImage initialContainerName) =
     Inr (exampleConfig [''QODANA_ENV=cli'', ''QODANA_TOKEN=tok''] ''host'')
   \<and> NetworkMode (HostConfig (exampleConfig [''QODANA_ENV=cli'', ''QODANA_TOKEN=tok''] ''host'')) =
       NetworkHost
   \<and> \<not> spec_isPlaintextLocalEndpoint ''http://qodana.example.com''"
  by (simp add: example_getDockerOptions HasPrefix_def exampleConfig_def NetworkHost_def
      spec_isPlaintextLocalEndpoint_def isLocalHost_def urlHost_def)

text \<open>
  Claim C7, amended. In every specification the builder returns, the network mode is
  \<open>host\<close> if and only if the URL of the configured cloud endpoint starts with
  \<open>http://\<close>, whatever its host; for every other URL, \<open>https\<close> ones among them, it is the
  zero value of the type, the empty string, which leaves the engine at its default.
\<close>

theorem C7_network_mode:
  assumes "fst (getDockerOptions P c img n) = Inr cfg"
  shows "NetworkMode (HostConfig cfg) =
           (if HasPrefix (CloudRootEndpointUrl P) ''http://'' then ''host'' else [])"
  using getDockerOptions_Inr(4) [OF assms] by (simp add: networkMode_def NetworkHost_def)

theorem C7_network_mode_witness:
  "fst (getDockerOptions (examplePlatform\<lparr>CloudRootEndpointUrl := ''http://localhost:8080''\<rparr>)
          (exampleContext\<lparr>Env := []\<rparr>) exampleImage initialContainerName) =
     Inr (exampleConfig [''QODANA_ENV=cli'', ''QODANA_TOKEN=tok''] ''host'')
   \<and> NetworkMode (HostConfig (exampleConfig [''QODANA_ENV=cli'', ''QODANA_TOKEN=tok''] ''host'')) =
       ''host''"
proof -
  have r: "fst (getDockerOptions (examplePlatform\<lparr>CloudRootEndpointUrl := ''http://localhost:8080''\<rparr>)
          (exampleContext\<lparr>Env := []\<rparr>) exampleImage initialContainerName) =
     Inr (exampleConfig [''QODANA_ENV=cli'', ''QODANA_TOKEN=tok''] ''host'')"
    by (simp add: example_getDockerOptions HasPrefix_def)
  show ?thesis using r C7_network_mode [OF r] by (simp add: HasPrefix_def)
qed

subsection \<open>Token entries of the environment\<close>

lemma takeWhile_key: "d \<notin> set k \<Longrightarrow> takeWhile (\<lambda>x. x \<noteq> d) (k @ d # v) = k"
  by (induction k) auto

lemma entry_eq_iff:
  assumes "CHR ''='' \<notin> set k" "CHR ''='' \<notin> set k'"
  shows "k @ ''='' @ v = k' @ ''='' @ v' \<longleftrightarrow> k = k' \<and> v = v'"
proof
  assume eq: "k @ ''='' @ v = k' @ ''='' @ v'"
  have "takeWhile (\<lambda>x. x \<noteq> CHR ''='') (k @ ''='' @ v) = k"
    using assms(1) by (simp add: takeWhile_key)
  moreover have "takeWhile (\<lambda>x. x \<noteq> CHR ''='') (k' @ ''='' @ v') = k'"
    using assms(2) by (simp add: takeWhile_key)
  ultimately have "k = k'" using eq by simp
  with eq show "k = k' \<and> v = v'" by simp
qed simp

text \<open>
  Claim C2, as stated, fails: the builder starts from the environment list of the
  context and filters nothing out of it. With the upload token set and the license-only
  token set, a context whose own list already holds the license-only entry gets a final
  list that holds both entries.
\<close>

theorem C2_counterexample:
  "fst (getDockerOptions (examplePlatform\<lparr>CloudRootEndpointUrl := ''https://qodana.cloud''\<rparr>)
          (exampleContext\<lparr>Env := [''QODANA_LICENSE_ONLY_TOKEN=lic'']\<rparr>) exampleImage
          initialContainerName) =
     Inr (exampleConfig
            [''QODANA_LICENSE_ONLY_TOKEN=lic'', ''QODANA_ENV=cli'', ''QODANA_TOKEN=tok''] [])
   \<and> QodanaLicenseOnlyToken examplePlatform @ ''='' @
       Getenv examplePlatform (QodanaLicenseOnlyToken examplePlatform)
       \<in> set (ContainerEnv (Config (exampleConfig
            [''QODANA_LICENSE_ONLY_TOKEN=lic'', ''QODANA_ENV=cli'', ''QODANA_TOKEN=tok''] [])))
   \<and> QodanaUploadToken (exampleContext\<lparr>Env := [''QODANA_LICENSE_ONLY_TOKEN=lic'']\<rparr>) \<noteq> []"
  by (simp add: example_getDockerOptions HasPrefix_def)
    (simp add: examplePlatform_def exampleConfig_def exampleContext_def)

text \<open>
  Claim C2, amended. In every specification the builder returns, the environment list
  is the list of the context (after the extraction of the Qodana environment), followed
  by the upload-token entry exactly when the upload token is non-empty, followed by the
  license-only-token entry exactly when the license-only token is non-empty and the
  upload token is empty. So when the list of the context holds no entry of either
  variable, the final list contains the upload-token entry if and only if the upload
  token is non-empty, and the license-only-token entry if and only if the license-only
  token is non-empty and the upload token is empty. (The names of the two variables are
  constants of a package outside the source files; they are taken to be different and free
  of \<open>=\<close>.)
\<close>

theorem C2_token_entries:
  assumes "fst (getDockerOptions P c img n) = Inr cfg"
  shows "ContainerEnv (Config cfg) =
           Env (ExtractQodanaEnvironment P c)
           @ (if QodanaUploadToken c \<noteq> [] then [QodanaToken P @ ''='' @ QodanaUploadToken c] else [])
           @ (if Getenv P (QodanaLicenseOnlyToken P) \<noteq> [] \<and> QodanaUploadToken c = []
              then [QodanaLicenseOnlyToken P @ ''='' @ Getenv P (QodanaLicenseOnlyToken P)] else [])
         \<and> (CHR ''='' \<notin> set (QodanaToken P) \<and> CHR ''='' \<notin> set (QodanaLicenseOnlyToken P)
            \<and> QodanaToken P \<noteq> QodanaLicenseOnlyToken P
            \<and> (\<forall>e \<in> set (Env (ExtractQodanaEnvironment P c)).
                  \<not> prefix (QodanaToken P @ ''='') e \<and> \<not> prefix (QodanaLicenseOnlyToken P @ ''='') e)
            \<longrightarrow>
              (QodanaToken P @ ''='' @ QodanaUploadToken c \<in> set (ContainerEnv (Config cfg))
                 \<longleftrightarrow> QodanaUploadToken c \<noteq> [])
            \<and> (QodanaLicenseOnlyToken P @ ''='' @ Getenv P (QodanaLicenseOnlyToken P)
                   \<in> set (ContainerEnv (Config cfg))
                 \<longleftrightarrow> Getenv P (QodanaLicenseOnlyToken P) \<noteq> [] \<and> QodanaUploadToken c = []))"
proof -
  let ?base = "Env (ExtractQodanaEnvironment P c)"
  let ?tok = "QodanaUploadToken c"
  let ?lic = "Getenv P (QodanaLicenseOnlyToken P)"
  let ?T = "QodanaToken P" and ?L = "QodanaLicenseOnlyToken P"
  have env: "ContainerEnv (Config cfg) =
       ?base @ (if ?tok \<noteq> [] then [?T @ ''='' @ ?tok] else [])
             @ (if ?lic \<noteq> [] \<and> ?tok = [] then [?L @ ''='' @ ?lic] else [])"
    using getDockerOptions_Inr(1) [OF assms]
    by (simp add: dockerEnv_def Let_def ExtractQodanaEnvironment_fields)
  have iffs: "(?T @ ''='' @ ?tok \<in> set (ContainerEnv (Config cfg)) \<longleftrightarrow> ?tok \<noteq> [])
       \<and> (?L @ ''='' @ ?lic \<in> set (ContainerEnv (Config cfg)) \<longleftrightarrow> ?lic \<noteq> [] \<and> ?tok = [])"
    if wf: "CHR ''='' \<notin> set ?T" "CHR ''='' \<notin> set ?L" "?T \<noteq> ?L"
      and base: "\<forall>e \<in> set ?base. \<not> prefix (?T @ ''='') e \<and> \<not> prefix (?L @ ''='') e"
  proof -
    have nb1: "?T @ ''='' @ ?tok \<notin> set ?base"
      using base by (metis append.assoc prefixI)
    have nb2: "?L @ ''='' @ ?lic \<notin> set ?base"
      using base by (metis append.assoc prefixI)
    have ne1: "?T @ ''='' @ ?tok \<noteq> ?L @ ''='' @ ?lic"
      using entry_eq_iff [OF wf(1) wf(2)] wf(3) by blast
    show ?thesis
      using nb1 nb2 ne1 by (auto simp: env)
  qed
  show ?thesis using env iffs by blast
qed

theorem C2_token_entries_witness:
  "fst (getDockerOptions examplePlatform exampleContext exampleImage initialContainerName) =
     Inr (exampleConfig [''QODANA_ENV=cli'', ''QODANA_TOKEN=tok''] [])
   \<and> QodanaUploadToken exampleContext = ''tok''
   \<and> Getenv examplePlatform ''QODANA_LICENSE_ONLY_TOKEN'' = ''lic''
   \<and> Env (ExtractQodanaEnvironment examplePlatform exampleContext) = [''QODANA_ENV=cli'']
   \<and> ''QODANA_TOKEN=tok''
       \<in> set (ContainerEnv (Config (exampleConfig [''QODANA_ENV=cli'', ''QODANA_TOKEN=tok''] [])))
   \<and> ''QODANA_LICENSE_ONLY_TOKEN=lic''
       \<notin> set (ContainerEnv (Config (exampleConfig [''QODANA_ENV=cli'', ''QODANA_TOKEN=tok''] [])))"
proof -
  have r: "fst (getDockerOptions examplePlatform exampleContext exampleImage initialContainerName) =
     Inr (exampleConfig [''QODANA_ENV=cli'', ''QODANA_TOKEN=tok''] [])"
    by (simp add: example_getDockerOptions_plain)
  have base: "Env (ExtractQodanaEnvironment examplePlatform exampleContext) = [''QODANA_ENV=cli'']"
    by (simp add: ExtractQodanaEnvironment_def WithEnvExtractedFromOsEnv_def examplePlatform_def
        exampleContext_def)
  have names: "QodanaToken examplePlatform = ''QODANA_TOKEN''"
    "QodanaLicenseOnlyToken examplePlatform = ''QODANA_LICENSE_ONLY_TOKEN''"
    "Getenv examplePlatform ''QODANA_LICENSE_ONLY_TOKEN'' = ''lic''"
    "QodanaUploadToken exampleContext = ''tok''"
    by (simp_all add: examplePlatform_def exampleContext_def)
  show ?thesis
    using r base names C2_token_entries [OF r] by simp
qed


subsection \<open>Registry puller\<close>

lemma registryAuth_Inr_iff:
  "registryAuth P img = Inr enc \<longleftrightarrow>
     (\<exists>lookup a buf. cliconfig_Load P = Inr lookup \<and>
        lookup (takeWhile (\<lambda>x. x \<noteq> CHR ''/'') img) = Inr a \<and>
        json_Marshal P a = Inr buf \<and> enc = base64_URLEncoding P buf)"
  by (auto simp: registryAuth_def encodeAuthToBase64_def Let_def SafeSplit_first split: sum.splits)

lemma registryAuth_Inl_Fatal: "registryAuth P img = Inl f \<Longrightarrow> \<exists>m. f = Fatal m"
  by (auto simp: registryAuth_def encodeAuthToBase64_def Let_def split: sum.splits)

text \<open>
  Claim C3, amended. \<open>pullImage\<close> first pulls anonymously. It makes a second pull,
  and only one, exactly when the anonymous pull fails with an error whose lowered text
  contains \<open>unauthorized\<close>, \<open>denied\<close> or \<open>forbidden\<close> and the stored credentials
  of the registry host load and encode; the second pull carries the base64 encoding of
  the JSON of the credentials stored for the part of the image reference before the
  first \<open>/\<close>. Every other failure of the anonymous pull stops the process, and so do a
  failure to load or encode the credentials (with no second pull) and a failure of the
  second pull.
\<close>

theorem C3_pullImage_single_retry:
  "hd (snd (pullImage P client img)) = ImagePullEv img [] (ImagePull client img [])
   \<and> length (snd (pullImage P client img)) =
       (if (case ImagePull client img [] of Inl e \<Rightarrow> isDockerUnauthorizedError P e | Inr _ \<Rightarrow> False)
           \<and> \<not> isl (registryAuth P img)
        then 2 else 1)
   \<and> (length (snd (pullImage P client img)) = 2 \<longrightarrow>
        snd (pullImage P client img) ! 1 =
          ImagePullEv img (projr (registryAuth P img))
            (ImagePull client img (projr (registryAuth P img))))
   \<and> (registryAuth P img = Inr enc \<longleftrightarrow>
        (\<exists>lookup a buf. cliconfig_Load P = Inr lookup \<and>
           lookup (takeWhile (\<lambda>x. x \<noteq> CHR ''/'') img) = Inr a \<and>
           json_Marshal P a = Inr buf \<and> enc = base64_URLEncoding P buf))
   \<and> (ImagePull client img [] = Inl e \<and> \<not> isDockerUnauthorizedError P e \<longrightarrow>
        pullImage P client img =
          (Inl (Fatal (''can't pull image '' @ e)), [ImagePullEv img [] (Inl e)]))
   \<and> (ImagePull client img [] = Inl e \<and> isDockerUnauthorizedError P e \<and> registryAuth P img = Inl f \<longrightarrow>
        pullImage P client img = (Inl f, [ImagePullEv img [] (Inl e)]) \<and> (\<exists>m. f = Fatal m))
   \<and> (ImagePull client img [] = Inl e \<and> isDockerUnauthorizedError P e \<and>
      registryAuth P img = Inr enc \<and> ImagePull client img enc = Inl e' \<longrightarrow>
        fst (pullImage P client img) =
          Inl (Fatal (''can't pull image from the private registry'' @ e')))"
proof -
  have ev: "hd (snd (pullImage P client img)) = ImagePullEv img [] (ImagePull client img [])"
    by (auto simp: pullImage_def Let_def split: sum.splits)
  have len: "length (snd (pullImage P client img)) =
       (if (case ImagePull client img [] of Inl e \<Rightarrow> isDockerUnauthorizedError P e | Inr _ \<Rightarrow> False)
           \<and> \<not> isl (registryAuth P img)
        then 2 else 1)"
    by (auto simp: pullImage_def Let_def split: sum.splits)
  have snd: "length (snd (pullImage P client img)) = 2 \<longrightarrow>
        snd (pullImage P client img) ! 1 =
          ImagePullEv img (projr (registryAuth P img))
            (ImagePull client img (projr (registryAuth P img)))"
    by (auto simp: pullImage_def Let_def split: sum.splits)
  have other: "ImagePull client img [] = Inl e \<and> \<not> isDockerUnauthorizedError P e \<longrightarrow>
        pullImage P client img =
          (Inl (Fatal (''can't pull image '' @ e)), [ImagePullEv img [] (Inl e)])"
    by (simp add: pullImage_def)
  have nocred: "ImagePull client img [] = Inl e \<and> isDockerUnauthorizedError P e \<and> registryAuth P img = Inl f \<longrightarrow>
        pullImage P client img = (Inl f, [ImagePullEv img [] (Inl e)]) \<and> (\<exists>m. f = Fatal m)"
    using registryAuth_Inl_Fatal by (auto simp: pullImage_def)
  have retry: "ImagePull client img [] = Inl e \<and> isDockerUnauthorizedError P e \<and>
      registryAuth P img = Inr enc \<and> ImagePull client img enc = Inl e' \<longrightarrow>
        fst (pullImage P client img) =
          Inl (Fatal (''can't pull image from the private registry'' @ e'))"
    by (simp add: pullImage_def)
  show ?thesis
    using ev len snd registryAuth_Inr_iff [of P img enc] other nocred retry by blast
qed

lemma example_unauthorized:
  "isDockerUnauthorizedError examplePlatform ''unauthorized: authentication required''"
proof -
  have "Contains ''unauthorized: authentication required'' ''unauthorized''" by code_simp
  then show ?thesis by (simp add: isDockerUnauthorizedError_def examplePlatform_def)
qed

lemma example_registryAuth: "registryAuth examplePlatform privateImage = Inr ''b64:{u,p}''"
  by (simp add: registryAuth_def examplePlatform_def encodeAuthToBase64_def Let_def)

theorem C3_pullImage_single_retry_witness:
  "ImagePull privateRegistryEngine privateImage [] = Inl ''unauthorized: authentication required''
   \<and> isDockerUnauthorizedError examplePlatform ''unauthorized: authentication required''
   \<and> registryAuth examplePlatform privateImage = Inr ''b64:{u,p}''
   \<and> length (snd (pullImage examplePlatform privateRegistryEngine privateImage)) = 2
   \<and> snd (pullImage examplePlatform privateRegistryEngine privateImage) ! 1 =
       ImagePullEv privateImage ''b64:{u,p}'' (Inr \<lparr>CopyErr = None, CloseErr = None\<rparr>)
   \<and> \<not> isDockerUnauthorizedError examplePlatform ''manifest unknown''
   \<and> pullImage examplePlatform missingImageEngine privateImage =
       (Inl (Fatal ''can't pull image manifest unknown''),
        [ImagePullEv privateImage [] (Inl ''manifest unknown'')])
   \<and> registryAuth noConfigPlatform privateImage = Inl (Fatal ''config file is malformed'')
   \<and> snd (pullImage noConfigPlatform privateRegistryEngine privateImage) =
       [ImagePullEv privateImage [] (Inl ''unauthorized: authentication required'')]
   \<and> ImagePull closedRegistryEngine privateImage ''b64:{u,p}'' = Inl ''access denied''
   \<and> fst (pullImage examplePlatform closedRegistryEngine privateImage) =
       Inl (Fatal ''can't pull image from the private registryaccess denied'')"
proof -
  have a: "ImagePull privateRegistryEngine privateImage [] = Inl ''unauthorized: authentication required''"
    by (simp add: privateRegistryEngine_def exampleEngine_def)
  have b: "ImagePull privateRegistryEngine privateImage ''b64:{u,p}'' = Inr \<lparr>CopyErr = None, CloseErr = None\<rparr>"
    by (simp add: privateRegistryEngine_def exampleEngine_def)
  have t: "length (snd (pullImage examplePlatform privateRegistryEngine privateImage)) =
       (if (case ImagePull privateRegistryEngine privateImage [] of
              Inl e \<Rightarrow> isDockerUnauthorizedError examplePlatform e | Inr _ \<Rightarrow> False)
           \<and> \<not> isl (registryAuth examplePlatform privateImage)
        then 2 else 1)
     \<and> (length (snd (pullImage examplePlatform privateRegistryEngine privateImage)) = 2 \<longrightarrow>
        snd (pullImage examplePlatform privateRegistryEngine privateImage) ! 1 =
          ImagePullEv privateImage (projr (registryAuth examplePlatform privateImage))
            (ImagePull privateRegistryEngine privateImage
               (projr (registryAuth examplePlatform privateImage))))"
    using C3_pullImage_single_retry [of examplePlatform privateRegistryEngine privateImage]
    by blast
  have retry: "length (snd (pullImage examplePlatform privateRegistryEngine privateImage)) = 2
     \<and> snd (pullImage examplePlatform privateRegistryEngine privateImage) ! 1 =
         ImagePullEv privateImage ''b64:{u,p}'' (Inr \<lparr>CopyErr = None, CloseErr = None\<rparr>)"
    using t by (simp add: a b example_unauthorized example_registryAuth)
  have c: "ImagePull missingImageEngine privateImage [] = Inl ''manifest unknown''"
    by (simp add: missingImageEngine_def exampleEngine_def)
  have nu: "\<not> isDockerUnauthorizedError examplePlatform ''manifest unknown''"
  proof -
    have "\<not> Contains ''manifest unknown'' ''unauthorized''" by code_simp
    moreover have "\<not> Contains ''manifest unknown'' ''denied''" by code_simp
    moreover have "\<not> Contains ''manifest unknown'' ''forbidden''" by code_simp
    ultimately show ?thesis by (simp add: isDockerUnauthorizedError_def examplePlatform_def)
  qed
  have other: "pullImage examplePlatform missingImageEngine privateImage =
       (Inl (Fatal (''can't pull image '' @ ''manifest unknown'')),
        [ImagePullEv privateImage [] (Inl ''manifest unknown'')])"
    using C3_pullImage_single_retry
      [of examplePlatform missingImageEngine privateImage _ "''manifest unknown''"] c nu
    by blast
  have u': "isDockerUnauthorizedError noConfigPlatform ''unauthorized: authentication required''"
    using example_unauthorized by (simp add: isDockerUnauthorizedError_def noConfigPlatform_def)
  have nc: "registryAuth noConfigPlatform privateImage = Inl (Fatal ''config file is malformed'')"
    by (simp add: registryAuth_def noConfigPlatform_def)
  have nocred: "pullImage noConfigPlatform privateRegistryEngine privateImage =
       (Inl (Fatal ''config file is malformed''),
        [ImagePullEv privateImage [] (Inl ''unauthorized: authentication required'')])"
    using C3_pullImage_single_retry
      [of noConfigPlatform privateRegistryEngine privateImage _
          "''unauthorized: authentication required''" "Fatal ''config file is malformed''"]
      a u' nc
    by blast
  have d: "ImagePull closedRegistryEngine privateImage [] = Inl ''unauthorized: authentication required''"
    "ImagePull closedRegistryEngine privateImage ''b64:{u,p}'' = Inl ''access denied''"
    by (simp_all add: closedRegistryEngine_def exampleEngine_def)
  have closed: "fst (pullImage examplePlatform closedRegistryEngine privateImage) =
       Inl (Fatal (''can't pull image from the private registry'' @ ''access denied''))"
    using C3_pullImage_single_retry
      [of examplePlatform closedRegistryEngine privateImage "''b64:{u,p}''"
          "''unauthorized: authentication required''" _ "''access denied''"]
      d example_unauthorized example_registryAuth
    by blast
  show ?thesis
    using retry other nocred closed
    by (simp add: a d nu nc example_unauthorized example_registryAuth)
qed

text \<open>
  Claim C3, as stated, fails: when the anonymous pull is rejected as unauthorized and
  the Docker configuration file cannot be loaded, the process stops after the anonymous
  pull and no pull with credentials is made.
\<close>

theorem C3_counterexample:
  "ImagePull privateRegistryEngine privateImage [] = Inl ''unauthorized: authentication required''
   \<and> isDockerUnauthorizedError noConfigPlatform ''unauthorized: authentication required''
   \<and> pullImage noConfigPlatform privateRegistryEngine privateImage =
       (Inl (Fatal ''config file is malformed''),
        [ImagePullEv privateImage [] (Inl ''unauthorized: authentication required'')])"
proof -
  have a: "ImagePull privateRegistryEngine privateImage [] = Inl ''unauthorized: authentication required''"
    by (simp add: privateRegistryEngine_def exampleEngine_def)
  have u: "isDockerUnauthorizedError noConfigPlatform ''unauthorized: authentication required''"
    using example_unauthorized
    by (simp add: isDockerUnauthorizedError_def noConfigPlatform_def)
  have r: "registryAuth noConfigPlatform privateImage = Inl (Fatal ''config file is malformed'')"
    by (simp add: registryAuth_def noConfigPlatform_def)
  show ?thesis using a u r by (simp add: pullImage_def)
qed



subsection \<open>The lifecycle driver and the engine calls of a run\<close>

lemma pullImage_events: "ev \<in> set (snd (pullImage P d img)) \<Longrightarrow> is_ImagePullEv ev"
  by (auto simp: pullImage_def Let_def split: sum.splits if_splits)






subsection \<open>User volumes\<close>

lemma SafeSplit_source_target:
  assumes "CHR '':'' \<notin> set source" "CHR '':'' \<notin> set target"
  shows "SafeSplit (source @ CHR '':'' # target) (CHR '':'') 0 = source"
    and "SafeSplit (source @ CHR '':'' # target) (CHR '':'') (Suc 0) = target"
  using assms by (simp_all add: SafeSplit_def Split_append Split_no_delim)

lemma extractDockerVolumes_posix:
  "GOOS P \<noteq> ''windows'' \<Longrightarrow>
     extractDockerVolumes P v =
       (if SafeSplit v (CHR '':'') 0 \<noteq> [] \<and> SafeSplit v (CHR '':'') 1 \<noteq> []
        then (SafeSplit v (CHR '':'') 0, SafeSplit v (CHR '':'') 1) else ([], []))"
  by (simp add: extractDockerVolumes_def Let_def)

lemma userVolumes_good:
  assumes "GOOS P \<noteq> ''windows''"
    and "\<forall>v \<in> set vs. SafeSplit v (CHR '':'') 0 \<noteq> [] \<and> SafeSplit v (CHR '':'') 1 \<noteq> []"
  shows "userVolumes P vs ms =
           Inr (ms @ map (\<lambda>v. bindMount (SafeSplit v (CHR '':'') 0) (SafeSplit v (CHR '':'') 1)) vs)"
  using assms(2)
  by (induction vs arbitrary: ms) (simp_all add: extractDockerVolumes_posix [OF assms(1)])

lemma userVolumes_bad:
  assumes "GOOS P \<noteq> ''windows''"
    and "\<exists>v \<in> set vs. SafeSplit v (CHR '':'') 0 = [] \<or> SafeSplit v (CHR '':'') 1 = []"
  shows "\<exists>v \<in> set vs. (SafeSplit v (CHR '':'') 0 = [] \<or> SafeSplit v (CHR '':'') 1 = []) \<and>
           userVolumes P vs ms = Inl (Fatal (''couldn't parse volume '' @ v))"
  using assms(2)
proof (induction vs arbitrary: ms)
  case Nil
  then show ?case by simp
next
  case (Cons v vs)
  show ?case
  proof (cases "SafeSplit v (CHR '':'') 0 \<noteq> [] \<and> SafeSplit v (CHR '':'') 1 \<noteq> []")
    case True
    with Cons.prems have "\<exists>v \<in> set vs. SafeSplit v (CHR '':'') 0 = [] \<or> SafeSplit v (CHR '':'') 1 = []"
      by auto
    from Cons.IH [OF this, of "ms @ [bindMount (SafeSplit v (CHR '':'') 0) (SafeSplit v (CHR '':'') 1)]"]
    show ?thesis using True by (auto simp: extractDockerVolumes_posix [OF assms(1)])
  next
    case False
    then show ?thesis by (auto simp: extractDockerVolumes_posix [OF assms(1)])
  qed
qed

lemma absPaths_Extract: "absPaths P (ExtractQodanaEnvironment P c) = absPaths P c"
  by (simp add: absPaths_def ExtractQodanaEnvironment_fields cong: sum.case_cong)

lemma globalConfigVolume_Extract:
  "globalConfigVolume P (ExtractQodanaEnvironment P c) = globalConfigVolume P c"
  by (simp add: globalConfigVolume_def ExtractQodanaEnvironment_fields cong: sum.case_cong)

lemma getDockerOptions_result:
  "fst (getDockerOptions P c img n) =
     (case absPaths P c of
        Inl f \<Rightarrow> Inl f
      | Inr paths \<Rightarrow>
          (case globalConfigVolume P c of
             Inl f \<Rightarrow> Inl f
           | Inr g \<Rightarrow>
               (case userVolumes P (Volumes c) (fixedVolumes P paths @ g) of
                  Inl f \<Rightarrow> Inl f
                | Inr volumes \<Rightarrow>
                    Inr ((projr (fst (getDockerOptions P c img n)))))))"
  by (auto simp: getDockerOptions_def Let_def absPaths_Extract globalConfigVolume_Extract
      ExtractQodanaEnvironment_fields split: sum.splits)

lemma getDockerOptions_Mounts:
  assumes "absPaths P c = Inr paths" "globalConfigVolume P c = Inr g"
    and "userVolumes P (Volumes c) (fixedVolumes P paths @ g) = Inr volumes"
  shows "\<exists>cfg. fst (getDockerOptions P c img n) = Inr cfg \<and> Mounts (HostConfig cfg) = volumes"
  using assms
  by (simp add: getDockerOptions_def Let_def absPaths_Extract globalConfigVolume_Extract
      ExtractQodanaEnvironment_fields)

lemma getDockerOptions_bad_volume:
  assumes "GOOS P \<noteq> ''windows''"
    and "\<exists>v \<in> set (Volumes c). SafeSplit v (CHR '':'') 0 = [] \<or> SafeSplit v (CHR '':'') 1 = []"
  shows "isl (fst (getDockerOptions P c img n))"
proof (cases "absPaths P c")
  case (Inl f)
  then show ?thesis by (subst getDockerOptions_result) simp
next
  case paths: (Inr paths)
  show ?thesis
  proof (cases "globalConfigVolume P c")
    case (Inl f)
    with paths show ?thesis by (subst getDockerOptions_result) simp
  next
    case (Inr g)
    from userVolumes_bad [OF assms, of "fixedVolumes P paths @ g"]
    obtain f where "userVolumes P (Volumes c) (fixedVolumes P paths @ g) = Inl f" by blast
    with paths Inr show ?thesis by (subst getDockerOptions_result) simp
  qed
qed

lemma run_no_create:
  assumes "\<And>img n. isl (fst (getDockerOptions P c img n))"
  shows "filter is_ContainerCreateEv (fst (snd (runQodanaContainer P docker c n))) = []
       \<and> filter is_ContainerStartEv (fst (snd (runQodanaContainer P docker c n))) = []"
proof -
  have pull: "filter is_ContainerCreateEv evs = [] \<and> filter is_ContainerStartEv evs = []"
    if "pullImage P d img = (r, evs)" for d img r evs
  proof -
    have "\<forall>ev \<in> set evs. is_ImagePullEv ev"
      using pullImage_events [of _ P d img] that by simp
    then have "\<forall>ev \<in> set evs. \<not> is_ContainerCreateEv ev \<and> \<not> is_ContainerStartEv ev"
      by (metis is_ContainerCreateEv.elims(2) is_ContainerStartEv.elims(2) is_ImagePullEv.simps(3,4))
    then show ?thesis by (simp add: filter_empty_conv)
  qed
  have opts: "getDockerOptions P c img n = (Inr cfg, n') \<Longrightarrow> False" for img n cfg n'
    using assms [of img n] by simp
  show ?thesis
    by (auto simp: runQodanaContainer_def PullImage_def split: analyzer.splits prod.splits sum.splits
        dest: pull opts)
qed

text \<open>
  Claim C4, amended. On a POSIX host: when the four directories and the global
  configuration directory resolve and every user volume is \<open>source:target\<close> with both
  parts non-empty and free of \<open>:\<close>, the builder returns a specification whose mounts
  are the fixed ones followed by exactly one bind mount per volume, with that source and
  target, in order. When some volume has an empty first or second colon-separated part,
  the builder stops the process (with the message \<open>couldn't parse volume\<close> and the first
  such volume, when the directories resolve), and the run makes no container create and
  no container start call.
\<close>

theorem C4_user_volumes:
  assumes "GOOS P \<noteq> ''windows''"
  shows
    "(absPaths P c = Inr paths \<and> globalConfigVolume P c = Inr g \<and>
      Volumes c = map (\<lambda>(s, t). s @ '':'' @ t) ps \<and>
      (\<forall>(s, t) \<in> set ps. s \<noteq> [] \<and> t \<noteq> [] \<and> CHR '':'' \<notin> set s \<and> CHR '':'' \<notin> set t)
      \<longrightarrow> (\<exists>cfg. fst (getDockerOptions P c img n) = Inr cfg \<and>
             Mounts (HostConfig cfg) =
               fixedVolumes P paths @ g @ map (\<lambda>(s, t). bindMount s t) ps))
     \<and> ((\<exists>v \<in> set (Volumes c). SafeSplit v (CHR '':'') 0 = [] \<or> SafeSplit v (CHR '':'') 1 = [])
      \<longrightarrow> isl (fst (getDockerOptions P c img n))
          \<and> (absPaths P c = Inr paths \<and> globalConfigVolume P c = Inr g \<longrightarrow>
               (\<exists>v \<in> set (Volumes c).
                  (SafeSplit v (CHR '':'') 0 = [] \<or> SafeSplit v (CHR '':'') 1 = []) \<and>
                  fst (getDockerOptions P c img n) = Inl (Fatal (''couldn't parse volume '' @ v))))
          \<and> filter is_ContainerCreateEv (fst (snd (runQodanaContainer P docker c n))) = []
          \<and> filter is_ContainerStartEv (fst (snd (runQodanaContainer P docker c n))) = [])"
proof -
  have good: "\<exists>cfg. fst (getDockerOptions P c img n) = Inr cfg \<and>
             Mounts (HostConfig cfg) = fixedVolumes P paths @ g @ map (\<lambda>(s, t). bindMount s t) ps"
    if a: "absPaths P c = Inr paths" and b: "globalConfigVolume P c = Inr g"
      and v: "Volumes c = map (\<lambda>(s, t). s @ '':'' @ t) ps"
      and wf: "\<forall>(s, t) \<in> set ps. s \<noteq> [] \<and> t \<noteq> [] \<and> CHR '':'' \<notin> set s \<and> CHR '':'' \<notin> set t"
  proof -
    have ok: "\<forall>v \<in> set (Volumes c). SafeSplit v (CHR '':'') 0 \<noteq> [] \<and> SafeSplit v (CHR '':'') 1 \<noteq> []"
      using wf by (fastforce simp: v SafeSplit_source_target)
    have "map (\<lambda>v. bindMount (SafeSplit v (CHR '':'') 0) (SafeSplit v (CHR '':'') 1)) (Volumes c) =
          map (\<lambda>(s, t). bindMount s t) ps"
      using wf by (fastforce simp: v SafeSplit_source_target)
    with userVolumes_good [OF assms ok, of "fixedVolumes P paths @ g"]
    have "userVolumes P (Volumes c) (fixedVolumes P paths @ g) =
            Inr (fixedVolumes P paths @ g @ map (\<lambda>(s, t). bindMount s t) ps)"
      by simp
    from getDockerOptions_Mounts [OF a b this] show ?thesis .
  qed
  have bad: "isl (fst (getDockerOptions P c img n))
          \<and> (absPaths P c = Inr paths \<and> globalConfigVolume P c = Inr g \<longrightarrow>
               (\<exists>v \<in> set (Volumes c).
                  (SafeSplit v (CHR '':'') 0 = [] \<or> SafeSplit v (CHR '':'') 1 = []) \<and>
                  fst (getDockerOptions P c img n) = Inl (Fatal (''couldn't parse volume '' @ v))))
          \<and> filter is_ContainerCreateEv (fst (snd (runQodanaContainer P docker c n))) = []
          \<and> filter is_ContainerStartEv (fst (snd (runQodanaContainer P docker c n))) = []"
    if b: "\<exists>v \<in> set (Volumes c). SafeSplit v (CHR '':'') 0 = [] \<or> SafeSplit v (CHR '':'') 1 = []"
  proof -
    have 1: "isl (fst (getDockerOptions P c img n))" for img n
      by (rule getDockerOptions_bad_volume [OF assms b])
    have 2: "\<exists>v \<in> set (Volumes c).
                  (SafeSplit v (CHR '':'') 0 = [] \<or> SafeSplit v (CHR '':'') 1 = []) \<and>
                  fst (getDockerOptions P c img n) = Inl (Fatal (''couldn't parse volume '' @ v))"
      if "absPaths P c = Inr paths" "globalConfigVolume P c = Inr g"
      using userVolumes_bad [OF assms b, of "fixedVolumes P paths @ g"] that
      by (subst getDockerOptions_result) auto
    show ?thesis using 1 2 run_no_create [of P c docker n] by blast
  qed
  show ?thesis using good bad by blast
qed


lemma example_absPaths:
  "absPaths examplePlatform (exampleContext\<lparr>Volumes := vs\<rparr>) =
     Inr (''/home/u/cache'', ''/home/u/project'', ''/home/u/results'', ''/home/u/results/report'')"
  by (simp add: absPaths_def absOrFatal_def examplePlatform_def exampleContext_def)

lemma example_globalConfigVolume:
  "globalConfigVolume examplePlatform (exampleContext\<lparr>Volumes := vs\<rparr>) = Inr []"
  by (simp add: globalConfigVolume_def exampleContext_def)

lemma example_bad_getDockerOptions:
  "getDockerOptions examplePlatform badVolumeContext exampleImage n =
     (Inl (Fatal ''couldn't parse volume /opt/tools''), ''qodana-cli-0a1b2c3d-4e5f6071'')"
  by (simp add: getDockerOptions_def badVolumeContext_def absPaths_Extract
      globalConfigVolume_Extract example_absPaths example_globalConfigVolume
      ExtractQodanaEnvironment_fields Let_def)
    (simp add: newContainerName_def ExtractQodanaEnvironment_def WithEnvExtractedFromOsEnv_def
      examplePlatform_def exampleContext_def extractDockerVolumes_def SafeSplit_def)

text \<open>
  Claim C4, as stated, fails: the fatal error does not come before every engine call.
  \<open>runQodanaContainer\<close> asks the engine for its information and pulls the image before
  it builds the configuration, so a run with a volume that does not parse stops after
  two engine calls.
\<close>

theorem C4_counterexample:
  "runQodanaContainer examplePlatform (exampleEngine ''linux'') badVolumeContext initialContainerName =
     (Inl (Fatal ''couldn't parse volume /opt/tools''),
      [InfoEv (Inr \<lparr>OSType = ''linux''\<rparr>),
       ImagePullEv exampleImage [] (Inr \<lparr>CopyErr = None, CloseErr = None\<rparr>)],
      ''qodana-cli-0a1b2c3d-4e5f6071'')"
proof -
  have a: "Analyser badVolumeContext = DockerAnalyzer exampleImage" "\<not> SkipPull badVolumeContext"
    by (simp_all add: badVolumeContext_def exampleContext_def)
  have p: "PullImage examplePlatform (exampleEngine ''linux'') exampleImage =
             (Inr (), [ImagePullEv exampleImage [] (Inr \<lparr>CopyErr = None, CloseErr = None\<rparr>)])"
    by (simp add: PullImage_def pullImage_def exampleEngine_def drainPull_def)
  have i: "Info (exampleEngine ''linux'') = Inr \<lparr>OSType = ''linux''\<rparr>"
    by (simp add: exampleEngine_def)
  show ?thesis
    by (simp add: runQodanaContainer_def a p i example_bad_getDockerOptions)
qed

theorem C4_user_volumes_witness:
  "GOOS examplePlatform \<noteq> ''windows''
   \<and> Volumes exampleContext = [''/opt/tools:/tools'']
   \<and> (\<exists>cfg. fst (getDockerOptions examplePlatform exampleContext exampleImage initialContainerName) =
              Inr cfg \<and>
            Mounts (HostConfig cfg) =
              [bindMount ''/home/u/cache'' ''/data/cache'',
               bindMount ''/home/u/project'' ''/data/project'',
               bindMount ''/home/u/results'' ''/data/results'',
               bindMount ''/home/u/results/report'' ''/data/results/report'',
               bindMount ''/opt/tools'' ''/tools''])
   \<and> Volumes badVolumeContext = [''/opt/tools'']
   \<and> SafeSplit ''/opt/tools'' (CHR '':'') 1 = []
   \<and> isl (fst (getDockerOptions examplePlatform badVolumeContext exampleImage initialContainerName))
   \<and> fst (getDockerOptions examplePlatform badVolumeContext exampleImage initialContainerName) =
       Inl (Fatal ''couldn't parse volume /opt/tools'')
   \<and> filter is_ContainerCreateEv
        (fst (snd (runQodanaContainer examplePlatform (exampleEngine ''linux'') badVolumeContext
                     initialContainerName))) = []"
proof -
  have posix: "GOOS examplePlatform \<noteq> ''windows''" by (simp add: examplePlatform_def)
  have ctx: "exampleContext\<lparr>Volumes := [''/opt/tools:/tools'']\<rparr> = exampleContext"
    by (simp add: exampleContext_def)
  have v: "Volumes exampleContext = map (\<lambda>(s, t). s @ '':'' @ t) [(''/opt/tools'', ''/tools'')]"
    by (simp add: exampleContext_def)
  have wf: "\<forall>(s, t) \<in> set [(''/opt/tools'', ''/tools'')].
              s \<noteq> [] \<and> t \<noteq> [] \<and> CHR '':'' \<notin> set s \<and> CHR '':'' \<notin> set t"
    by simp
  have good: "\<exists>cfg. fst (getDockerOptions examplePlatform exampleContext exampleImage initialContainerName) =
              Inr cfg \<and>
            Mounts (HostConfig cfg) =
              fixedVolumes examplePlatform
                (''/home/u/cache'', ''/home/u/project'', ''/home/u/results'', ''/home/u/results/report'')
              @ [] @ map (\<lambda>(s, t). bindMount s t) [(''/opt/tools'', ''/tools'')]"
    using C4_user_volumes [OF posix, of exampleContext _ "[]" "[(''/opt/tools'', ''/tools'')]"]
      example_absPaths [of "[''/opt/tools:/tools'']"]
      example_globalConfigVolume [of "[''/opt/tools:/tools'']"] v wf
    unfolding ctx by blast
  have bv: "Volumes badVolumeContext = [''/opt/tools'']" by (simp add: badVolumeContext_def)
  have ss: "SafeSplit ''/opt/tools'' (CHR '':'') 1 = []" by (simp add: SafeSplit_def)
  have bp: "absPaths examplePlatform badVolumeContext =
       Inr (''/home/u/cache'', ''/home/u/project'', ''/home/u/results'', ''/home/u/results/report'')"
    "globalConfigVolume examplePlatform badVolumeContext = Inr []"
    by (simp_all add: badVolumeContext_def example_absPaths example_globalConfigVolume)
  have bad: "isl (fst (getDockerOptions examplePlatform badVolumeContext exampleImage initialContainerName))
     \<and> fst (getDockerOptions examplePlatform badVolumeContext exampleImage initialContainerName) =
         Inl (Fatal (''couldn't parse volume '' @ ''/opt/tools''))
     \<and> filter is_ContainerCreateEv
        (fst (snd (runQodanaContainer examplePlatform (exampleEngine ''linux'') badVolumeContext
                     initialContainerName))) = []"
    using C4_user_volumes [OF posix, of badVolumeContext
        "(''/home/u/cache'', ''/home/u/project'', ''/home/u/results'', ''/home/u/results/report'')"
        "[]" _ exampleImage initialContainerName "exampleEngine ''linux''"] bv ss bp
    by simp
  show ?thesis
    using posix good bad bv ss
    by (simp add: fixedVolumes_def examplePlatform_def exampleContext_def)
qed



subsection \<open>Archive extraction\<close>

lemma join_evil: "filepathJoin ''..'' ''../evil'' = ''../../evil''"
  by code_simp

lemma clean_dest: "Clean ''..'' = ''..''"
  by code_simp

lemma dir_evil: "Dir ''../../evil'' = ''../..''"
  by code_simp

lemma evil_outside: "\<not> withinDir ''/home/u/project'' ''..'' ''../../evil''"
  by code_simp

lemma rel_evil: "Rel ''..'' ''../../evil'' = Inr ''../evil''"
  by code_simp

text \<open>
  Claim C10 at the destination \<open>..\<close> with an entry named \<open>../evil\<close>. The entry, joined
  to the destination, is \<open>../../evil\<close>, which is outside the destination: from the working
  directory \<open>/home/u/project\<close> the destination is \<open>/home/u\<close> and the entry is
  \<open>/home/evil\<close>. The zip extraction accepts it, because the string \<open>../../evil\<close> starts
  with the cleaned destination and a separator, \<open>../\<close>; it creates the file and returns
  no error. The tar extraction, which checks with \<open>isInDirectory\<close>, returns the
  \<open>illegal file path\<close> error and writes nothing.
\<close>

theorem C10_zip_writes_outside:
  "\<not> withinDir ''/home/u/project'' ''..'' (filepathJoin ''..'' ''../evil'')
   \<and> unpackZip exampleFs (Inr evilZip) ''..'' =
       (Inr (None, False), [MkdirAllW ''../..'', OpenFileW ''../../evil'', CopyW ''../../evil''])
   \<and> extractTarGz exampleFs evilTarGz ''..'' =
       (Inr (Some ''../../evil: illegal file path'', True), [])"
proof -
  have z: "unpackZip exampleFs (Inr evilZip) ''..'' =
       (Inr (None, False), [MkdirAllW ''../..'', OpenFileW ''../../evil'', CopyW ''../../evil''])"
    by (simp add: unpackZip_def evilZip_def exampleFs_def join_evil clean_dest dir_evil
        HasPrefix_def Let_def)
  have t: "extractTarGz exampleFs evilTarGz ''..'' =
       (Inr (Some ''../../evil: illegal file path'', True), [])"
    by (simp add: extractTarGz_def evilTarGz_def exampleFs_def join_evil isInDirectory_def rel_evil
        HasPrefix_def Let_def)
  show ?thesis using z t evil_outside by (simp add: join_evil)
qed

end
